theory Spec2Isabelle
  imports Main
begin

section \<open>Yices2 solver binding (lib/ufo/Smt/Yices2Impl.cc)\<close>

text \<open>
  The Yices library itself is an external service. Its context is modelled as the
  stack of assertion frames that \<open>yices_push\<close> and \<open>yices_pop\<close> manipulate: the head of
  the list is the current frame, and every \<open>yices_push\<close> opens a new empty frame on top
  of it. \<open>yices_impl::add\<close> and \<open>yices_impl::check\<close> are stubs in the source (they never
  call the library), so a context created by the constructor stays idle and
  \<open>yices_push\<close> cannot be refused.
\<close>

type_synonym context_t = "nat list list"

definition yices_new_context :: context_t where
  "yices_new_context = [[]]"

definition yices_push :: "context_t \<Rightarrow> context_t" where
  "yices_push d = [] # d"

record yices_impl =
  d_ctx :: context_t

text \<open>\<^verbatim>\<open>void yices_impl::push(){ yices_push(d_ctx); }\<close>\<close>

definition push :: "yices_impl \<Rightarrow> yices_impl" where
  "push s = s\<lparr>d_ctx := yices_push (d_ctx s)\<rparr>"

text \<open>\<^verbatim>\<open>void yices_impl::pop(){ yices_push(d_ctx); }\<close>\<close>

definition pop :: "yices_impl \<Rightarrow> yices_impl" where
  "pop s = s\<lparr>d_ctx := yices_push (d_ctx s)\<rparr>"

section \<open>Program representation consumed by the engine\<close>

text \<open>
  Aborts of the engine (\<open>llvm_unreachable\<close>, a failed \<open>assert\<close>, \<open>report_fatal_error\<close>)
  are values of type \<open>error\<close>; a function that can abort returns \<open>error + 'a\<close>.
\<close>

datatype error = Unreachable string | AssertionFailed string | FatalError string
  | NullDereference string

definition bind_res :: "(error + 'a) \<Rightarrow> ('a \<Rightarrow> error + 'b) \<Rightarrow> error + 'b" where
  "bind_res m f = (case m of Inl e \<Rightarrow> Inl e | Inr x \<Rightarrow> f x)"

definition llvm_assert :: "bool \<Rightarrow> string \<Rightarrow> (error + 'a) \<Rightarrow> error + 'a" where
  "llvm_assert b msg k = (if b then k else Inl (AssertionFailed msg))"

datatype ty = VoidTy | HalfTy | FloatTy | DoubleTy | X86_FP80Ty | FP128Ty | PPC_FP128Ty
  | LabelTy | MetadataTy | X86_MMXTy | TokenTy | IntegerTy nat | FunctionTy | StructTy
  | ArrayTy | PointerTy ty | VectorTy

text \<open>
  An \<open>llvm::Value\<close> is an immutable node of the input program. The engine only looks at
  its identity, at what kind of node it is and at its static type.
\<close>

datatype valueKind = BasicBlockV | InstructionV | ArgumentV | FunctionV | GlobalVariableV
  | ConstantIntV nat | ConstantPointerNullV | UndefValueV | ConstantExprV

datatype llvm_value = Value (valueID: nat) (getValueKind: valueKind) (getType: ty)

definition isaConstant :: "llvm_value \<Rightarrow> bool" where
  "isaConstant v = (case getValueKind v of
       FunctionV \<Rightarrow> True | GlobalVariableV \<Rightarrow> True | ConstantIntV n \<Rightarrow> True
     | ConstantPointerNullV \<Rightarrow> True | UndefValueV \<Rightarrow> True | ConstantExprV \<Rightarrow> True
     | _ \<Rightarrow> False)"

definition isNullValue :: "llvm_value \<Rightarrow> bool" where
  "isNullValue v = (case getValueKind v of
       ConstantIntV n \<Rightarrow> n = 0 | ConstantPointerNullV \<Rightarrow> True | _ \<Rightarrow> False)"

definition isIntegerTy :: "ty \<Rightarrow> bool" where
  "isIntegerTy t = (case t of IntegerTy w \<Rightarrow> True | _ \<Rightarrow> False)"

definition isPointerTy :: "ty \<Rightarrow> bool" where
  "isPointerTy t = (case t of PointerTy e \<Rightarrow> True | _ \<Rightarrow> False)"

datatype llvm_function = Function (fnValue: llvm_value) (getName: string)

datatype opcode =
    PHI "(llvm_value \<times> llvm_value) list"
  | Br llvm_value
  | CondBr llvm_value llvm_value llvm_value
  | OtherTerminator
  | OtherInst

datatype instruction = Instruction (instValue: llvm_value) (getOpcode: opcode)

datatype basicBlock =
  BasicBlock (bbValue: llvm_value) (getParent: llvm_function) (insts: "instruction list")

text \<open>
  \<open>PHINode::getIncomingValueForBlock\<close>: the value paired with the first incoming entry
  of the given block; LLVM asserts that there is one.
\<close>

definition getIncomingValueForBlock ::
  "(llvm_value \<times> llvm_value) list \<Rightarrow> basicBlock option \<Rightarrow> error + llvm_value" where
  "getIncomingValueForBlock inc prev =
     (case prev of
        None \<Rightarrow> Inl (AssertionFailed ''Invalid basic block argument!'')
      | Some b \<Rightarrow>
          (case map_of inc (bbValue b) of
             None \<Rightarrow> Inl (AssertionFailed ''Invalid basic block argument!'')
           | Some v \<Rightarrow> Inr v))"

section \<open>Logical terms\<close>

text \<open>
  Terms of the expression library, as far as the engine builds them itself. A C++
  \<open>Expr\<close> may be null; a possibly-null \<open>Expr\<close> is an \<open>expr option\<close>.
\<close>

datatype expr =
    TRUE
  | FALSE
  | VALUE llvm_value
  | BBLOCK llvm_value
  | MkConst expr expr
  | BoolConst expr
  | Select expr expr
  | ConstArray expr expr
  | BvSort nat
  | BvNum int nat
  | NEG expr
  | OR expr expr
  | EQ expr expr
  | Variant nat expr
  | App string "expr list"

text \<open>
  Modelled from the spec: \<open>boolop::lor\<close> is declared in the expression library, which
  is not among the sources; the spec calls its result the logical OR of the two terms.
\<close>

definition lor :: "expr \<Rightarrow> expr \<Rightarrow> expr" where
  "lor a b = OR a b"

datatype apint = APInt (getBitWidth: nat) (getZExtValue: nat)

definition isOneValue :: "apint \<Rightarrow> bool" where
  "isOneValue a = (getZExtValue a = 1)"

definition isNullAPInt :: "apint \<Rightarrow> bool" where
  "isNullAPInt a = (getZExtValue a = 0)"

datatype genericValue = GenericValue (IntVal: apint)

section \<open>The semantics object and its collaborators\<close>

datatype trackLevel = REG | PTR | MEM

fun trackLevel_rank :: "trackLevel \<Rightarrow> nat" where
  "trackLevel_rank REG = 0"
| "trackLevel_rank PTR = 1"
| "trackLevel_rank MEM = 2"

text \<open>
  \<open>sem\<close> gathers what is fixed during a run: the command-line options of BvOpSem2.cc,
  the fields of \<open>Bv2OpSem\<close>, and the services whose code is not among the sources and
  which are therefore parameters: the shadow-memory oracle (\<open>shadow_dsa\<close>), the data
  layout, the ALU, the term builders of the memory manager, the simplifier, the folder
  of constant expressions, and the set of enabled log tags (\<open>SeaLog\<close>).
\<close>

record sem =
  EnableUniqueScalars2 :: bool
  IgnoreCalloc2 :: bool
  SimplifyOnWrite :: bool
  m_trackLvl :: trackLevel
  m_canFail :: "(llvm_function \<Rightarrow> bool) option"
  SeaLog :: "string set"
  shadow_isShadowMem :: "llvm_value \<Rightarrow> bool \<times> llvm_value option"
  soleUserIsShadowMemCall :: "llvm_value \<Rightarrow> bool"
  base_errorFlag :: "basicBlock \<Rightarrow> expr"
  z3_simplify :: "expr \<Rightarrow> expr"
  td_sizeInBits :: "ty \<Rightarrow> nat"
  foldConstantExpr :: "llvm_value \<Rightarrow> error + genericValue option"
  toMpz :: "apint \<Rightarrow> int"
  alu_intTy :: "nat \<Rightarrow> expr"
  alu_si :: "int \<Rightarrow> nat \<Rightarrow> expr"
  alu_bv1ToBool :: "expr \<Rightarrow> expr"
  alu_boolToBv1 :: "expr \<Rightarrow> expr"
  mem_ptrSzInBits :: nat
  mem_mkPtrRegisterSort :: "llvm_value \<Rightarrow> expr"
  mem_mkMemRegisterSort :: "llvm_value \<Rightarrow> expr"
  mem_coerce :: "expr \<Rightarrow> expr \<Rightarrow> expr"
  mem_loadTerm :: "expr \<Rightarrow> expr \<Rightarrow> ty \<Rightarrow> nat \<Rightarrow> error + expr option"
  mem_storeTerm :: "expr \<Rightarrow> expr \<Rightarrow> expr \<Rightarrow> ty \<Rightarrow> nat \<Rightarrow> error + expr option"
  mem_memSetTerm :: "expr \<Rightarrow> expr \<Rightarrow> nat \<Rightarrow> expr \<Rightarrow> nat \<Rightarrow> error + expr option"
  mem_memCpyTerm :: "expr \<Rightarrow> expr \<Rightarrow> nat \<Rightarrow> expr \<Rightarrow> expr \<Rightarrow> nat \<Rightarrow> error + expr option"

text \<open>The file-local wrapper \<open>isShadowMem\<close> of BvOpSem2.cc, called with a non-null \<open>out\<close>
  that the caller initialised to null.\<close>

definition isShadowMem :: "sem \<Rightarrow> llvm_value \<Rightarrow> bool \<times> llvm_value option" where
  "isShadowMem S v =
     (let (res, scalar) = shadow_isShadowMem S v
      in (res, if EnableUniqueScalars2 S then scalar else None))"

text \<open>\<open>OpSemMemManager::ptrSort\<close> (BvOpSem2Context.hh).\<close>

definition ptrSort :: "sem \<Rightarrow> expr" where
  "ptrSort S = BvSort (mem_ptrSzInBits S)"

text \<open>
  Modelled from the spec: \<open>OpSemMemManager::nullPtr\<close> is defined in
  BvOpSem2MemManager.cc, which is not among the sources; pointers are bit-vectors of
  the pointer width and the null pointer is the number zero of that width.
\<close>

definition nullPtr :: "sem \<Rightarrow> expr" where
  "nullPtr S = BvNum 0 (mem_ptrSzInBits S)"

text \<open>\<open>Bv2OpSem::isSkipped\<close>. The warnings it prints do not influence the result.\<close>

definition isSkipped :: "sem \<Rightarrow> llvm_value \<Rightarrow> error + bool" where
  "isSkipped S v =
     (case isShadowMem S v of
        (True, scalar) \<Rightarrow>
          Inr (scalar = None \<and> trackLevel_rank (m_trackLvl S) < trackLevel_rank MEM)
      | (False, scalar) \<Rightarrow>
          (case getType v of
             PointerTy e \<Rightarrow>
               if soleUserIsShadowMemCall S v then Inr True
               else Inr (trackLevel_rank (m_trackLvl S) < trackLevel_rank PTR)
           | VoidTy \<Rightarrow> Inr False
           | HalfTy \<Rightarrow> Inr True
           | FloatTy \<Rightarrow> Inr True
           | DoubleTy \<Rightarrow> Inr True
           | X86_FP80Ty \<Rightarrow> Inr True
           | FP128Ty \<Rightarrow> Inr True
           | PPC_FP128Ty \<Rightarrow> Inr True
           | LabelTy \<Rightarrow> Inl (Unreachable ''Unexpected label type'')
           | MetadataTy \<Rightarrow> Inl (Unreachable ''Unexpected metadata type'')
           | X86_MMXTy \<Rightarrow> Inr True
           | TokenTy \<Rightarrow> Inl (Unreachable ''Unexpected token type'')
           | IntegerTy w \<Rightarrow> Inr False
           | FunctionTy \<Rightarrow> Inl (Unreachable ''Unexpected function type'')
           | StructTy \<Rightarrow> Inr True
           | ArrayTy \<Rightarrow> Inr True
           | VectorTy \<Rightarrow> Inr True))"

text \<open>
  \<open>Bv2OpSem::getConstantValue\<close>, for the constants of the model: an undefined value,
  a constant expression (folded by the parameter \<open>foldConstantExpr\<close>) and the simple
  constants of integer and pointer type. Of a \<open>GenericValue\<close> only the integer
  component is kept; a default-constructed one holds the one-bit zero.
\<close>

definition sem_getConstantValue :: "sem \<Rightarrow> llvm_value \<Rightarrow> error + genericValue option" where
  "sem_getConstantValue S C =
     (case getValueKind C of
        UndefValueV \<Rightarrow>
          (case getType C of
             IntegerTy w \<Rightarrow> Inr (Some (GenericValue (APInt w 0)))
           | X86_FP80Ty \<Rightarrow> Inr (Some (GenericValue (APInt 80 0)))
           | FP128Ty \<Rightarrow> Inr (Some (GenericValue (APInt 128 0)))
           | PPC_FP128Ty \<Rightarrow> Inr (Some (GenericValue (APInt 128 0)))
           | _ \<Rightarrow> Inr (Some (GenericValue (APInt 1 0))))
      | ConstantExprV \<Rightarrow> foldConstantExpr S C
      | k \<Rightarrow>
          (case getType C of
             IntegerTy w \<Rightarrow>
               (case k of
                  ConstantIntV n \<Rightarrow> Inr (Some (GenericValue (APInt w n)))
                | _ \<Rightarrow> Inl (AssertionFailed ''cast<ConstantInt>''))
           | PointerTy e \<Rightarrow>
               (case k of
                  ConstantPointerNullV \<Rightarrow> Inr (Some (GenericValue (APInt 1 0)))
                | FunctionV \<Rightarrow> Inr None
                | GlobalVariableV \<Rightarrow> Inr None
                | _ \<Rightarrow> Inl (Unreachable ''Unknown constant pointer type!''))
           | _ \<Rightarrow> Inl (FatalError ''ERROR: Constant unimplemented for type'')))"

text \<open>\<open>Bv2OpSem::errorFlag\<close>; \<open>OperationalSemantics::errorFlag\<close> is the parameter
  \<open>base_errorFlag\<close>.\<close>

definition errorFlag :: "sem \<Rightarrow> basicBlock \<Rightarrow> expr" where
  "errorFlag S BB =
     (case m_canFail S of
        Some canFail \<Rightarrow> if \<not> canFail (getParent BB) then FALSE else base_errorFlag S BB
      | None \<Rightarrow> base_errorFlag S BB)"

section \<open>The symbolic machine context (BvOpSem2Context.hh)\<close>

text \<open>
  A context is an object on the heap; a forked context points to its parent
  (\<open>m_parent\<close>), so contexts live in a store indexed by address. A fork is created
  after its parent, and addresses are given out in creation order: a parent's address
  is below its child's, which is what makes walking the parent chain terminate.

  The fields of the base class \<open>OpSemContext\<close> come first: \<open>m_values\<close> is the symbolic
  store and \<open>m_counter\<close> its source of fresh constants, \<open>m_side\<close> the side-condition
  list, \<open>m_pathCond\<close> the path condition. The C++ context holds references to a store
  and a side-condition list; here each context has its own, as the spec's data model
  has it.

  \<open>errs\<close> is the diagnostic stream, restricted to the messages of the instruction
  visitor and of \<open>unhandledInst\<close>; the warnings that the queries \<open>isSkipped\<close>,
  \<open>getConstantValue\<close> and \<open>getOperandValue\<close> print are left out, no result depends on
  them. \<open>m_memManager\<close> records whether the context owns a memory manager: the root
  context does, a fork does not.
\<close>

record ctx =
  m_values :: "expr \<rightharpoonup> expr"
  m_counter :: nat
  m_side :: "expr list"
  m_pathCond :: expr
  m_func :: "llvm_function option"
  m_bb :: "basicBlock option"
  m_inst :: nat
  m_prev :: "basicBlock option"
  m_readRegister :: "expr option"
  m_writeRegister :: "expr option"
  m_scalar :: bool
  m_trfrReadReg :: "expr option"
  m_fparams :: "expr list"
  m_ignored :: "llvm_value set"
  m_registers :: "expr set"
  m_valueToRegister :: "llvm_value \<rightharpoonup> expr"
  m_memManager :: bool
  m_parent :: "nat option"
  errs :: "string list"

type_synonym heap = "nat \<Rightarrow> ctx"

definition upd :: "nat \<Rightarrow> (ctx \<Rightarrow> ctx) \<Rightarrow> heap \<Rightarrow> heap" where
  "upd c f h = h(c := f (h c))"

text \<open>
  Modelled from the spec: the macro \<open>LOG(tag, ...)\<close> is defined in SeaDebug.h, which is
  not among the sources. Recoverable conditions are logged at a diagnostic verbosity
  level: the statement prints when its tag has been enabled (\<open>SeaEnableLog\<close> puts the
  tag into the set \<open>SeaLog\<close>).
\<close>

definition LOG :: "sem \<Rightarrow> string \<Rightarrow> string \<Rightarrow> heap \<Rightarrow> nat \<Rightarrow> heap" where
  "LOG S tag msg h c =
     (if tag \<in> SeaLog S then upd c (\<lambda>x. x\<lparr>errs := errs x @ [msg]\<rparr>) h else h)"

subsection \<open>Operations of the base class OpSemContext\<close>

text \<open>
  Modelled from the spec: \<open>OpSemContext::read\<close> and the \<open>SymStore\<close> behind it are
  declared in headers that are not among the sources. The store maps a register to its
  current symbolic value; a register that was never written reads as itself.
\<close>

definition ctx_read :: "heap \<Rightarrow> nat \<Rightarrow> expr \<Rightarrow> expr" where
  "ctx_read h c r = (case m_values (h c) r of Some u \<Rightarrow> u | None \<Rightarrow> r)"

text \<open>
  Modelled from the spec: \<open>OpSemContext::write\<close> (same header). A write makes the
  given term the current value of the register.
\<close>

definition OpSemContext_write :: "expr \<Rightarrow> expr \<Rightarrow> heap \<Rightarrow> nat \<Rightarrow> heap" where
  "OpSemContext_write v u h c = upd c (\<lambda>x. x\<lparr>m_values := (m_values x)(v \<mapsto> u)\<rparr>) h"

text \<open>
  Modelled from the spec: \<open>OpSemContext::havoc\<close> (same header). The register receives
  a fresh nondeterministic value, which is returned.
\<close>

definition ctx_havoc :: "expr \<Rightarrow> heap \<Rightarrow> nat \<Rightarrow> expr \<times> heap" where
  "ctx_havoc r h c =
     (let u = Variant (m_counter (h c)) r
      in (u, upd c (\<lambda>x. x\<lparr>m_values := (m_values x)(r \<mapsto> u),
                             m_counter := Suc (m_counter x)\<rparr>) h))"

text \<open>
  Modelled from the spec: \<open>OpSemContext::addSide\<close>, \<open>addDef\<close>, \<open>addScopedSide\<close> and
  \<open>resetSide\<close> (same header). A side-condition is appended to the ordered list; a
  definition is the side-condition that equates its two terms; an edge condition is
  appended as a side-condition; resetting discards all accumulated side-conditions.
\<close>

definition addSide :: "expr \<Rightarrow> heap \<Rightarrow> nat \<Rightarrow> heap" where
  "addSide v h c = upd c (\<lambda>x. x\<lparr>m_side := m_side x @ [v]\<rparr>) h"

definition addDef :: "expr \<Rightarrow> expr \<Rightarrow> heap \<Rightarrow> nat \<Rightarrow> heap" where
  "addDef v u h c = addSide (EQ v u) h c"

definition addScopedSide :: "expr \<Rightarrow> heap \<Rightarrow> nat \<Rightarrow> heap" where
  "addScopedSide v h c = addSide v h c"

definition resetSide :: "heap \<Rightarrow> nat \<Rightarrow> heap" where
  "resetSide h c = upd c (\<lambda>x. x\<lparr>m_side := []\<rparr>) h"

subsection \<open>Bv2OpSemContext\<close>

text \<open>\<open>Bv2OpSemContext::write\<close>: the value is simplified first when the option asks
  for it.\<close>

definition Bv2OpSemContext_write :: "sem \<Rightarrow> expr \<Rightarrow> expr \<Rightarrow> heap \<Rightarrow> nat \<Rightarrow> heap" where
  "Bv2OpSemContext_write S v u h c =
     OpSemContext_write v (if SimplifyOnWrite S then z3_simplify S u else u) h c"

definition setMemReadRegister :: "expr option \<Rightarrow> heap \<Rightarrow> nat \<Rightarrow> heap" where
  "setMemReadRegister r h c = upd c (\<lambda>x. x\<lparr>m_readRegister := r\<rparr>) h"

definition getMemReadRegister :: "heap \<Rightarrow> nat \<Rightarrow> expr option" where
  "getMemReadRegister h c = m_readRegister (h c)"

definition setMemWriteRegister :: "expr option \<Rightarrow> heap \<Rightarrow> nat \<Rightarrow> heap" where
  "setMemWriteRegister r h c = upd c (\<lambda>x. x\<lparr>m_writeRegister := r\<rparr>) h"

definition getMemWriteRegister :: "heap \<Rightarrow> nat \<Rightarrow> expr option" where
  "getMemWriteRegister h c = m_writeRegister (h c)"

definition isMemScalar :: "heap \<Rightarrow> nat \<Rightarrow> bool" where
  "isMemScalar h c = m_scalar (h c)"

definition setMemTrsfrReadReg :: "expr option \<Rightarrow> heap \<Rightarrow> nat \<Rightarrow> heap" where
  "setMemTrsfrReadReg r h c = upd c (\<lambda>x. x\<lparr>m_trfrReadReg := r\<rparr>) h"

definition getMemTrsfrReadReg :: "heap \<Rightarrow> nat \<Rightarrow> expr option" where
  "getMemTrsfrReadReg h c = m_trfrReadReg (h c)"

definition isIgnored :: "heap \<Rightarrow> nat \<Rightarrow> llvm_value \<Rightarrow> bool" where
  "isIgnored h c inst = (inst \<in> m_ignored (h c))"

definition ignore :: "llvm_value \<Rightarrow> heap \<Rightarrow> nat \<Rightarrow> heap" where
  "ignore inst h c = upd c (\<lambda>x. x\<lparr>m_ignored := insert inst (m_ignored x)\<rparr>) h"

definition declareRegister :: "expr \<Rightarrow> heap \<Rightarrow> nat \<Rightarrow> heap" where
  "declareRegister v h c = upd c (\<lambda>x. x\<lparr>m_registers := insert v (m_registers x)\<rparr>) h"

text \<open>\<open>m_valueToRegister.insert(std::make_pair(&v, reg))\<close>: a \<open>DenseMap\<close> insertion
  keeps an entry that is already there.\<close>

definition valueToRegister_insert :: "llvm_value \<Rightarrow> expr \<Rightarrow> heap \<Rightarrow> nat \<Rightarrow> heap" where
  "valueToRegister_insert v reg h c =
     upd c (\<lambda>x. case m_valueToRegister x v of
                   None \<Rightarrow> x\<lparr>m_valueToRegister := (m_valueToRegister x)(v \<mapsto> reg)\<rparr>
                 | Some r \<Rightarrow> x) h"

text \<open>\<open>Bv2OpSemContext::getRegister\<close>: the own map first, then the parent's.\<close>

function getRegister :: "heap \<Rightarrow> nat \<Rightarrow> llvm_value \<Rightarrow> expr option" where
  "getRegister h c v =
     (case m_valueToRegister (h c) v of
        Some res \<Rightarrow> Some res
      | None \<Rightarrow>
          (case m_parent (h c) of
             None \<Rightarrow> None
           | Some p \<Rightarrow> if p < c then getRegister h p v else None))"
  by pat_completeness auto
termination
  by (relation "measure (\<lambda>(h, c, v). c)") auto

declare getRegister.simps [simp del]

text \<open>The four overloads of \<open>Bv2OpSemContext::mkRegister\<close> and their dispatcher.\<close>

definition mkRegister_BasicBlock ::
  "sem \<Rightarrow> llvm_value \<Rightarrow> heap \<Rightarrow> nat \<Rightarrow> error + expr \<times> heap" where
  "mkRegister_BasicBlock S bb h c =
     (case getRegister h c bb of
        Some r \<Rightarrow> Inr (r, h)
      | None \<Rightarrow>
          (let reg = BoolConst (BBLOCK bb)
           in Inr (reg, valueToRegister_insert bb reg (declareRegister reg h c) c)))"

definition mkInstructionRegister :: "sem \<Rightarrow> llvm_value \<Rightarrow> error + expr" where
  "mkInstructionRegister S inst =
     (let v = VALUE inst
      in case isShadowMem S inst of
           (True, Some scalar) \<Rightarrow>
             (case getType scalar of
                PointerTy eTy \<Rightarrow>
                  Inr (MkConst (Select v (VALUE scalar)) (alu_intTy S (td_sizeInBits S eTy)))
              | _ \<Rightarrow> Inl (AssertionFailed ''scalar->getType()->isPointerTy()''))
         | (True, None) \<Rightarrow> Inr (MkConst v (mem_mkMemRegisterSort S inst))
         | (False, scalar) \<Rightarrow>
             (case getType inst of
                IntegerTy w \<Rightarrow> Inr (MkConst v (alu_intTy S (td_sizeInBits S (IntegerTy w))))
              | PointerTy e \<Rightarrow> Inr (MkConst v (mem_mkPtrRegisterSort S inst))
              | _ \<Rightarrow> Inl (Unreachable ''Error: unhandled type'')))"

definition mkRegister_Instruction ::
  "sem \<Rightarrow> llvm_value \<Rightarrow> heap \<Rightarrow> nat \<Rightarrow> error + expr \<times> heap" where
  "mkRegister_Instruction S inst h c =
     (case getRegister h c inst of
        Some r \<Rightarrow> Inr (r, h)
      | None \<Rightarrow>
          bind_res (mkInstructionRegister S inst) (\<lambda>reg.
            Inr (reg, valueToRegister_insert inst reg (declareRegister reg h c) c)))"

definition mkRegister_Function ::
  "sem \<Rightarrow> llvm_value \<Rightarrow> heap \<Rightarrow> nat \<Rightarrow> error + expr \<times> heap" where
  "mkRegister_Function S fn h c =
     (case getRegister h c fn of
        Some r \<Rightarrow> Inr (r, h)
      | None \<Rightarrow>
          (let reg = MkConst (VALUE fn) (mem_mkPtrRegisterSort S fn)
           in Inr (reg, valueToRegister_insert fn reg (declareRegister reg h c) c)))"

definition mkRegister_GlobalVariable ::
  "sem \<Rightarrow> llvm_value \<Rightarrow> heap \<Rightarrow> nat \<Rightarrow> error + expr \<times> heap" where
  "mkRegister_GlobalVariable S gv h c =
     (case getRegister h c gv of
        Some r \<Rightarrow> Inr (r, h)
      | None \<Rightarrow>
          (let reg = MkConst (VALUE gv) (ptrSort S)
           in Inr (reg, valueToRegister_insert gv reg (declareRegister reg h c) c)))"

definition mkRegister :: "sem \<Rightarrow> llvm_value \<Rightarrow> heap \<Rightarrow> nat \<Rightarrow> error + expr \<times> heap" where
  "mkRegister S v h c =
     (case getValueKind v of
        BasicBlockV \<Rightarrow> mkRegister_BasicBlock S v h c
      | InstructionV \<Rightarrow> mkRegister_Instruction S v h c
      | FunctionV \<Rightarrow> mkRegister_Function S v h c
      | GlobalVariableV \<Rightarrow> mkRegister_GlobalVariable S v h c
      | _ \<Rightarrow> Inl (Unreachable ''cannot make symbolic register''))"

text \<open>
  The forking constructor \<open>Bv2OpSemContext(values, side, o)\<close>, building the new context
  at address \<open>n\<close>. The value-to-register map is not copied: the fork starts with an empty
  one and reaches its parent's entries through \<open>m_parent\<close>.
\<close>

definition fork :: "nat \<Rightarrow> nat \<Rightarrow> (expr \<rightharpoonup> expr) \<Rightarrow> expr list \<Rightarrow> heap \<Rightarrow> heap" where
  "fork o' n values side h =
     h(n := \<lparr>m_values = values, m_counter = m_counter (h o'), m_side = side,
             m_pathCond = m_pathCond (h o'), m_func = m_func (h o'), m_bb = m_bb (h o'),
             m_inst = m_inst (h o'), m_prev = m_prev (h o'),
             m_readRegister = m_readRegister (h o'),
             m_writeRegister = m_writeRegister (h o'), m_scalar = m_scalar (h o'),
             m_trfrReadReg = m_trfrReadReg (h o'), m_fparams = m_fparams (h o'),
             m_ignored = m_ignored (h o'), m_registers = m_registers (h o'),
             m_valueToRegister = Map.empty, m_memManager = False, m_parent = Some o',
             errs = []\<rparr>)"

text \<open>\<open>Bv2OpSemContext::getConstantValue\<close>.\<close>

definition getConstantValue :: "sem \<Rightarrow> llvm_value \<Rightarrow> error + expr option" where
  "getConstantValue S c =
     (if isNullValue c \<or> getValueKind c = ConstantPointerNullV then
        Inr (Some (if getType c = IntegerTy 1 then alu_si S 0 1 else nullPtr S))
      else
        (case getValueKind c of
           ConstantIntV n \<Rightarrow>
             (if getType c = IntegerTy 1 then
                Inr (Some (if n = 1 then alu_si S 1 1 else alu_si S 0 1))
              else
                Inr (Some (alu_si S (toMpz S (APInt (td_sizeInBits S (getType c)) n))
                                    (td_sizeInBits S (getType c)))))
         | _ \<Rightarrow>
             (if isIntegerTy (getType c) then
                bind_res (sem_getConstantValue S c) (\<lambda>GVO.
                  case GVO of
                    Some gv \<Rightarrow>
                      Inr (Some (alu_si S (toMpz S (IntVal gv)) (td_sizeInBits S (getType c))))
                  | None \<Rightarrow> Inr None)
              else Inr None)))"

text \<open>\<open>Bv2OpSem::getOperandValue\<close>.\<close>

definition getOperandValue :: "sem \<Rightarrow> llvm_value \<Rightarrow> heap \<Rightarrow> nat \<Rightarrow> error + expr option" where
  "getOperandValue S v h c =
     (case getValueKind v of
        BasicBlockV \<Rightarrow>
          (case getRegister h c v of
             Some reg \<Rightarrow> Inr (Some (ctx_read h c reg))
           | None \<Rightarrow> Inr None)
      | FunctionV \<Rightarrow>
          (case getRegister h c v of
             Some reg \<Rightarrow> Inr (Some (ctx_read h c reg))
           | None \<Rightarrow> getConstantValue S v)
      | GlobalVariableV \<Rightarrow>
          (case getRegister h c v of
             Some reg \<Rightarrow> Inr (Some (ctx_read h c reg))
           | None \<Rightarrow> getConstantValue S v)
      | InstructionV \<Rightarrow>
          (case getRegister h c v of
             Some reg \<Rightarrow> Inr (Some (ctx_read h c reg))
           | None \<Rightarrow> Inr None)
      | ArgumentV \<Rightarrow>
          (case getRegister h c v of
             Some reg \<Rightarrow> Inr (Some (ctx_read h c reg))
           | None \<Rightarrow> Inr None)
      | _ \<Rightarrow>
          bind_res (getConstantValue S v) (\<lambda>res.
            case res of
              None \<Rightarrow> Inl (AssertionFailed ''res'')
            | Some e \<Rightarrow> Inr (Some e)))"

text \<open>\<open>Bv2OpSemContext::onBasicBlockEntry\<close>; \<open>m_inst\<close> is the position of the current
  instruction in the current block.\<close>

definition onBasicBlockEntry :: "basicBlock \<Rightarrow> heap \<Rightarrow> nat \<Rightarrow> error + heap" where
  "onBasicBlockEntry bb h c =
     (let f = (case m_func (h c) of None \<Rightarrow> getParent bb | Some g \<Rightarrow> g)
      in llvm_assert (f = getParent bb) ''m_func == bb.getParent()''
           (Inr (upd c (\<lambda>x. x\<lparr>m_func := Some f,
                                   m_prev := (case m_bb x of Some b \<Rightarrow> Some b | None \<Rightarrow> m_prev x),
                                   m_bb := Some bb,
                                   m_inst := 0\<rparr>) h)))"

definition setPrevBb :: "basicBlock \<Rightarrow> heap \<Rightarrow> nat \<Rightarrow> heap" where
  "setPrevBb prev h c = upd c (\<lambda>x. x\<lparr>m_prev := Some prev\<rparr>) h"

text \<open>\<open>operator++\<close> of the context.\<close>

definition next_inst :: "heap \<Rightarrow> nat \<Rightarrow> heap" where
  "next_inst h c = upd c (\<lambda>x. x\<lparr>m_inst := Suc (m_inst x)\<rparr>) h"

text \<open>\<open>getCurrentInst\<close> dereferences the instruction iterator, which has to point into
  the current block.\<close>

definition getCurrentInst :: "heap \<Rightarrow> nat \<Rightarrow> error + basicBlock \<times> instruction" where
  "getCurrentInst h c =
     (case m_bb (h c) of
        None \<Rightarrow> Inl (NullDereference ''m_inst'')
      | Some b \<Rightarrow>
          if m_inst (h c) < length (insts b) then Inr (b, insts b ! m_inst (h c))
          else Inl (NullDereference ''m_inst''))"

subsection \<open>Memory operations of the context\<close>

text \<open>
  Modelled from the spec: the members of \<open>OpSemMemManager\<close> that the context calls are
  defined in BvOpSem2MemManager.cc, which is not among the sources. The term each of
  them builds is a parameter of \<open>sem\<close>; a memory-mutating operation creates the new
  content of the memory partition and puts it into the write register.
\<close>

definition mm_loadValueFromMem ::
  "sem \<Rightarrow> expr \<Rightarrow> expr \<Rightarrow> ty \<Rightarrow> nat \<Rightarrow> heap \<Rightarrow> nat \<Rightarrow> error + expr option" where
  "mm_loadValueFromMem S ptr memReg t align h c =
     mem_loadTerm S ptr (ctx_read h c memReg) t align"

text \<open>
  Modelled from the spec: the last step of the memory-mutating members of
  \<open>OpSemMemManager\<close> (BvOpSem2MemManager.cc): the term that describes the memory after
  the operation becomes the value of the write register. An operation that builds no
  term writes nothing.
\<close>

definition mm_writeResult ::
  "sem \<Rightarrow> expr \<Rightarrow> expr option \<Rightarrow> heap \<Rightarrow> nat \<Rightarrow> error + expr option \<times> heap" where
  "mm_writeResult S memWriteReg res h c =
     (case res of
        None \<Rightarrow> Inr (None, h)
      | Some t \<Rightarrow> Inr (Some t, Bv2OpSemContext_write S memWriteReg t h c))"

text \<open>
  Modelled from the spec: \<open>OpSemMemManager::storeValueToMem\<close>, \<open>MemSet\<close> and \<open>MemCpy\<close>
  (BvOpSem2MemManager.cc), each building its term from the current content of the
  memory registers it reads.
\<close>

definition mm_storeValueToMem ::
  "sem \<Rightarrow> expr \<Rightarrow> expr \<Rightarrow> expr \<Rightarrow> expr \<Rightarrow> ty \<Rightarrow> nat \<Rightarrow> heap \<Rightarrow> nat
     \<Rightarrow> error + expr option \<times> heap" where
  "mm_storeValueToMem S val ptr memReadReg memWriteReg t align h c =
     bind_res (mem_storeTerm S val ptr (ctx_read h c memReadReg) t align) (\<lambda>res.
       mm_writeResult S memWriteReg res h c)"

definition mm_MemSet ::
  "sem \<Rightarrow> expr \<Rightarrow> expr \<Rightarrow> nat \<Rightarrow> expr \<Rightarrow> expr \<Rightarrow> nat \<Rightarrow> heap \<Rightarrow> nat
     \<Rightarrow> error + expr option \<times> heap" where
  "mm_MemSet S ptr val len memReadReg memWriteReg align h c =
     bind_res (mem_memSetTerm S ptr val len (ctx_read h c memReadReg) align) (\<lambda>res.
       mm_writeResult S memWriteReg res h c)"

definition mm_MemCpy ::
  "sem \<Rightarrow> expr \<Rightarrow> expr \<Rightarrow> nat \<Rightarrow> expr \<Rightarrow> expr \<Rightarrow> expr \<Rightarrow> nat \<Rightarrow> heap \<Rightarrow> nat
     \<Rightarrow> error + expr option \<times> heap" where
  "mm_MemCpy S dPtr sPtr len memTrsfrReadReg memReadReg memWriteReg align h c =
     bind_res (mem_memCpyTerm S dPtr sPtr len (ctx_read h c memTrsfrReadReg)
                 (ctx_read h c memReadReg) align) (\<lambda>res.
       mm_writeResult S memWriteReg res h c)"

text \<open>\<open>Bv2OpSemContext::loadValueFromMem\<close>, \<open>storeValueToMem\<close>, \<open>MemSet\<close> and \<open>MemCpy\<close>
  (BvOpSem2.cc): assertions, then the memory manager.\<close>

definition loadValueFromMem ::
  "sem \<Rightarrow> expr \<Rightarrow> ty \<Rightarrow> nat \<Rightarrow> heap \<Rightarrow> nat \<Rightarrow> error + expr option" where
  "loadValueFromMem S ptr t align h c =
     llvm_assert (m_memManager (h c)) ''m_memManager''
       (case getMemReadRegister h c of
          None \<Rightarrow> Inl (AssertionFailed ''getMemReadRegister()'')
        | Some rr \<Rightarrow> mm_loadValueFromMem S ptr rr t align h c)"

definition storeValueToMem ::
  "sem \<Rightarrow> expr \<Rightarrow> expr \<Rightarrow> ty \<Rightarrow> nat \<Rightarrow> heap \<Rightarrow> nat \<Rightarrow> error + expr option \<times> heap" where
  "storeValueToMem S val ptr t align h c =
     llvm_assert (m_memManager (h c)) ''m_memManager''
       (case getMemReadRegister h c of
          None \<Rightarrow> Inl (AssertionFailed ''getMemReadRegister()'')
        | Some rr \<Rightarrow>
            (case getMemWriteRegister h c of
               None \<Rightarrow> Inl (AssertionFailed ''getMemWriteRegister()'')
             | Some wr \<Rightarrow> mm_storeValueToMem S val ptr rr wr t align h c))"

definition MemSet ::
  "sem \<Rightarrow> expr \<Rightarrow> expr \<Rightarrow> nat \<Rightarrow> nat \<Rightarrow> heap \<Rightarrow> nat \<Rightarrow> error + expr option \<times> heap" where
  "MemSet S ptr val len align h c =
     llvm_assert (m_memManager (h c)) ''m_memManager''
       (case getMemReadRegister h c of
          None \<Rightarrow> Inl (AssertionFailed ''getMemReadRegister()'')
        | Some rr \<Rightarrow>
            (case getMemWriteRegister h c of
               None \<Rightarrow> Inl (AssertionFailed ''getMemWriteRegister()'')
             | Some wr \<Rightarrow> mm_MemSet S ptr val len rr wr align h c))"

definition MemCpy ::
  "sem \<Rightarrow> expr \<Rightarrow> expr \<Rightarrow> nat \<Rightarrow> nat \<Rightarrow> heap \<Rightarrow> nat \<Rightarrow> error + expr option \<times> heap" where
  "MemCpy S dPtr sPtr len align h c =
     llvm_assert (m_memManager (h c)) ''m_memManager''
       (case getMemTrsfrReadReg h c of
          None \<Rightarrow> Inl (AssertionFailed ''getMemTrsfrReadReg()'')
        | Some tr \<Rightarrow>
            (case getMemReadRegister h c of
               None \<Rightarrow> Inl (AssertionFailed ''getMemReadRegister()'')
             | Some rr \<Rightarrow>
                 (case getMemWriteRegister h c of
                    None \<Rightarrow> Inl (AssertionFailed ''getMemWriteRegister()'')
                  | Some wr \<Rightarrow> mm_MemCpy S dPtr sPtr len tr rr wr align h c)))"

section \<open>The instruction interpreter (BvOpSem2.cc)\<close>

text \<open>\<open>Bv2OpSem::unhandledInst\<close> and \<open>Bv2OpSem::unhandledValue\<close>.\<close>

definition unhandledInst :: "sem \<Rightarrow> llvm_value \<Rightarrow> heap \<Rightarrow> nat \<Rightarrow> heap" where
  "unhandledInst S inst h c =
     (if isIgnored h c inst then h
      else LOG S ''opsem'' ''unhandled instruction'' (ignore inst h c) c)"

definition unhandledValue :: "sem \<Rightarrow> llvm_value \<Rightarrow> heap \<Rightarrow> nat \<Rightarrow> heap" where
  "unhandledValue S v h c =
     (if getValueKind v = InstructionV then unhandledInst S v h c
      else LOG S ''opsem'' ''unhandled value'' h c)"

subsection \<open>OpSemVisitorBase\<close>

definition lookup :: "sem \<Rightarrow> llvm_value \<Rightarrow> heap \<Rightarrow> nat \<Rightarrow> error + expr option" where
  "lookup S v h c = getOperandValue S v h c"

text \<open>The three statements that both branches of \<open>OpSemVisitorBase::havoc\<close> run on the
  register they found or made.\<close>

definition havocRegister :: "sem \<Rightarrow> expr \<Rightarrow> heap \<Rightarrow> nat \<Rightarrow> expr \<times> heap" where
  "havocRegister S reg h c =
     (let (u, h1) = ctx_havoc reg h c;
          hv = mem_coerce S reg u
      in (hv, Bv2OpSemContext_write S reg hv h1 c))"

definition havoc :: "sem \<Rightarrow> llvm_value \<Rightarrow> heap \<Rightarrow> nat \<Rightarrow> error + expr option \<times> heap" where
  "havoc S v h c =
     bind_res (isSkipped S v) (\<lambda>skipped.
       if skipped then Inr (None, h)
       else
         llvm_assert (m_memManager (h c)) ''m_ctx.getMemManager()''
           (case getRegister h c v of
              Some reg \<Rightarrow>
                (let (hv, h1) = havocRegister S reg h c in Inr (Some hv, h1))
            | None \<Rightarrow>
                bind_res (mkRegister S v h c) (\<lambda>(reg, h1).
                  let (hv, h2) = havocRegister S reg h1 c in Inr (Some hv, h2))))"

definition OpSemVisitorBase_write ::
  "sem \<Rightarrow> llvm_value \<Rightarrow> expr \<Rightarrow> heap \<Rightarrow> nat \<Rightarrow> error + heap" where
  "OpSemVisitorBase_write S v val h c =
     bind_res (isSkipped S v) (\<lambda>skipped.
       if skipped then Inr h
       else
         (case getRegister h c v of
            Some reg \<Rightarrow> Inr (Bv2OpSemContext_write S reg val h c)
          | None \<Rightarrow>
              llvm_assert (\<not> isaConstant v) ''!isa<Constant>(v)''
                (bind_res (mkRegister S v h c) (\<lambda>(reg, h1).
                   Inr (Bv2OpSemContext_write S reg val h1 c)))))"

definition setValue :: "sem \<Rightarrow> llvm_value \<Rightarrow> expr option \<Rightarrow> heap \<Rightarrow> nat \<Rightarrow> error + heap" where
  "setValue S v e h c =
     (case e of
        Some e' \<Rightarrow> OpSemVisitorBase_write S v e' h c
      | None \<Rightarrow>
          bind_res (havoc S v (unhandledValue S v h c) c) (\<lambda>(hv, h1). Inr h1))"

subsection \<open>OpSemVisitor: memory instructions\<close>



text \<open>The skip branch at the head of \<open>executeStoreInst\<close>.\<close>

definition skipStore :: "sem \<Rightarrow> heap \<Rightarrow> nat \<Rightarrow> error + expr option \<times> heap" where
  "skipStore S h c =
     Inr (None, setMemWriteRegister None
                  (setMemReadRegister None (LOG S ''opsem'' ''Skipping store'' h c) c) c)"

text \<open>\<open>OpSemVisitor::executeStoreInst\<close>.\<close>

definition executeStoreInst ::
  "sem \<Rightarrow> llvm_value \<Rightarrow> llvm_value \<Rightarrow> nat \<Rightarrow> heap \<Rightarrow> nat \<Rightarrow> error + expr option \<times> heap" where
  "executeStoreInst S val addr alignment h c =
     (case getMemReadRegister h c of
        None \<Rightarrow> skipStore S h c
      | Some rr \<Rightarrow>
          (case getMemWriteRegister h c of
             None \<Rightarrow> skipStore S h c
           | Some wr \<Rightarrow>
               bind_res (isSkipped S val) (\<lambda>skipped.
                 if skipped then skipStore S h c
                 else
                   bind_res (lookup S val h c) (\<lambda>v.
                     bind_res
                       (case (v, isMemScalar h c) of
                          (Some v0, True) \<Rightarrow>
                            (let v1 = (if getType val = IntegerTy 1
                                       then alu_boolToBv1 S v0 else v0)
                             in Inr (Some v1, Bv2OpSemContext_write S wr v1 h c))
                        | _ \<Rightarrow>
                            bind_res (lookup S addr h c) (\<lambda>p.
                              case (v, p) of
                                (Some v0, Some p0) \<Rightarrow>
                                  storeValueToMem S v0 p0 (getType val) alignment h c
                              | _ \<Rightarrow> Inr (None, h)))
                       (\<lambda>(res, h1).
                          let h2 = (if res = None
                                    then LOG S ''opsem'' ''Skipping store'' h1 c else h1)
                          in Inr (res, setMemWriteRegister None
                                         (setMemReadRegister None h2 c) c))))))"

definition visitStoreInst ::
  "sem \<Rightarrow> llvm_value \<Rightarrow> llvm_value \<Rightarrow> nat \<Rightarrow> heap \<Rightarrow> nat \<Rightarrow> error + heap" where
  "visitStoreInst S val ptr alignment h c =
     bind_res (executeStoreInst S val ptr alignment h c) (\<lambda>(res, h1). Inr h1)"

definition isConstantInt :: "llvm_value \<Rightarrow> bool" where
  "isConstantInt v = (case getValueKind v of ConstantIntV n \<Rightarrow> True | _ \<Rightarrow> False)"

definition skipMemSet :: "sem \<Rightarrow> heap \<Rightarrow> nat \<Rightarrow> error + expr option \<times> heap" where
  "skipMemSet S h c =
     Inr (None, setMemWriteRegister None
                  (setMemReadRegister None (LOG S ''opsem'' ''Skipping memset'' h c) c) c)"

text \<open>\<open>OpSemVisitor::executeMemSetInst\<close>.\<close>

definition executeMemSetInst ::
  "sem \<Rightarrow> llvm_value \<Rightarrow> llvm_value \<Rightarrow> llvm_value \<Rightarrow> nat \<Rightarrow> heap \<Rightarrow> nat
     \<Rightarrow> error + expr option \<times> heap" where
  "executeMemSetInst S dst val len alignment h c =
     (if getMemReadRegister h c = None \<or> getMemWriteRegister h c = None then skipMemSet S h c
      else
        bind_res (isSkipped S dst) (\<lambda>skDst.
          if skDst then skipMemSet S h c
          else
            bind_res (isSkipped S val) (\<lambda>skVal.
              if skVal then skipMemSet S h c
              else if isMemScalar h c then
                Inl (Unreachable ''memset to scalars is not supported'')
              else
                bind_res (lookup S dst h c) (\<lambda>addr.
                  llvm_assert (getType val = IntegerTy 8) ''val.getType()->isIntegerTy(8)''
                    (bind_res (lookup S val h c) (\<lambda>v.
                       bind_res (lookup S len h c) (\<lambda>len'.
                         bind_res
                           (case (v, addr) of
                              (Some v0, Some addr0) \<Rightarrow>
                                (case getValueKind len of
                                   ConstantIntV n \<Rightarrow> MemSet S addr0 v0 n alignment h c
                                 | _ \<Rightarrow>
                                     Inl (Unreachable
                                            ''Unsupported memset with symbolic length''))
                            | _ \<Rightarrow> Inr (None, h))
                           (\<lambda>(res, h1).
                              let h2 = (if res = None
                                        then LOG S ''opsem'' ''Skipping memset'' h1 c else h1)
                              in Inr (res, setMemWriteRegister None
                                             (setMemReadRegister None h2 c) c)))))))))"

definition skipMemCpy :: "sem \<Rightarrow> heap \<Rightarrow> nat \<Rightarrow> error + expr option \<times> heap" where
  "skipMemCpy S h c =
     Inr (None, setMemWriteRegister None
                  (setMemReadRegister None
                     (setMemTrsfrReadReg None (LOG S ''opsem'' ''skipping memcpy'' h c) c) c) c)"

text \<open>\<open>OpSemVisitor::executeMemCpyInst\<close>.\<close>

definition executeMemCpyInst ::
  "sem \<Rightarrow> llvm_value \<Rightarrow> llvm_value \<Rightarrow> llvm_value \<Rightarrow> nat \<Rightarrow> heap \<Rightarrow> nat
     \<Rightarrow> error + expr option \<times> heap" where
  "executeMemCpyInst S dst src len alignment h c =
     (if getMemReadRegister h c = None \<or> getMemWriteRegister h c = None
         \<or> getMemTrsfrReadReg h c = None then skipMemCpy S h c
      else
        bind_res (isSkipped S dst) (\<lambda>skDst.
          if skDst then skipMemCpy S h c
          else
            bind_res (isSkipped S src) (\<lambda>skSrc.
              if skSrc then skipMemCpy S h c
              else if isMemScalar h c then
                Inl (Unreachable ''memcpy to scalars is not supported'')
              else
                bind_res (lookup S dst h c) (\<lambda>dstAddr.
                  bind_res (lookup S src h c) (\<lambda>srcAddr.
                    bind_res (lookup S len h c) (\<lambda>len'.
                      bind_res
                        (case (dstAddr, srcAddr) of
                           (Some d0, Some s0) \<Rightarrow>
                             (case getValueKind len of
                                ConstantIntV n \<Rightarrow> MemCpy S d0 s0 n alignment h c
                              | _ \<Rightarrow>
                                  Inl (Unreachable
                                         ''Unsupported memcpy with symbolic length''))
                         | _ \<Rightarrow> Inr (None, h))
                        (\<lambda>(res, h1).
                           let h2 = (if res = None
                                     then LOG S ''opsem'' ''Skipping memcpy'' h1 c else h1)
                           in Inr (res, setMemWriteRegister None
                                          (setMemReadRegister None
                                             (setMemTrsfrReadReg None h2 c) c) c))))))))"

subsection \<open>OpSemVisitor: calloc\<close>

text \<open>
  \<open>OpSemVisitor::visitCallocCall\<close>; \<open>inst\<close> is the call instruction. The guard of the
  source tests the read register twice. \<open>m_ctx.read\<close> of a null register dereferences a
  null pointer.
\<close>

definition visitCallocCall :: "sem \<Rightarrow> llvm_value \<Rightarrow> heap \<Rightarrow> nat \<Rightarrow> error + heap" where
  "visitCallocCall S inst h c =
     (if getMemReadRegister h c = None \<or> getMemReadRegister h c = None then
        Inr (LOG S ''opsem'' ''treating calloc() as nop'' h c)
      else
        llvm_assert (\<not> isMemScalar h c) ''!m_ctx.isMemScalar()''
          (case (getMemWriteRegister h c, getMemReadRegister h c) of
             (Some wr, Some rr) \<Rightarrow>
               (let h1 =
                  (if IgnoreCalloc2 S then
                     addDef (ctx_read h c wr) (ctx_read h c rr)
                       (LOG S ''opsem'' ''treating calloc() as malloc()'' h c) c
                   else
                     addDef (ctx_read h c wr) (ConstArray (ptrSort S) (nullPtr S))
                       (LOG S ''opsem''
                          ''allowing calloc() to zero initialize ALL of its memory region'' h c)
                       c)
                in bind_res (havoc S inst h1 c) (\<lambda>(hv, h2). setValue S inst hv h2 c))
           | _ \<Rightarrow> Inl (NullDereference ''m_ctx.read'')))"

subsection \<open>OpSemPhiVisitor\<close>

text \<open>
  \<open>OpSemPhiVisitor::visitBasicBlock\<close>. The first loop walks the leading PHI nodes and
  collects the incoming values in \<open>ops\<close>; the second loop walks them again and assigns
  \<open>ops[i++]\<close>, which is the head of what is left of \<open>ops\<close>.
\<close>

fun phi_reads ::
  "sem \<Rightarrow> instruction list \<Rightarrow> heap \<Rightarrow> nat \<Rightarrow> error + expr option list" where
  "phi_reads S [] h c = Inr []"
| "phi_reads S (I # rest) h c =
     (case getOpcode I of
        PHI incoming \<Rightarrow>
          bind_res (isSkipped S (instValue I)) (\<lambda>skipped.
            if skipped then phi_reads S rest h c
            else
              bind_res (getIncomingValueForBlock incoming (m_prev (h c))) (\<lambda>v.
                bind_res (lookup S v h c) (\<lambda>e.
                  bind_res (phi_reads S rest h c) (\<lambda>ops. Inr (e # ops)))))
      | _ \<Rightarrow> Inr [])"

fun phi_writes ::
  "sem \<Rightarrow> instruction list \<Rightarrow> expr option list \<Rightarrow> heap \<Rightarrow> nat \<Rightarrow> error + heap" where
  "phi_writes S [] ops h c = Inr h"
| "phi_writes S (I # rest) ops h c =
     (case getOpcode I of
        PHI incoming \<Rightarrow>
          bind_res (isSkipped S (instValue I)) (\<lambda>skipped.
            if skipped then phi_writes S rest ops h c
            else
              (case ops of
                 [] \<Rightarrow> Inl (NullDereference ''ops[i++]'')
               | e # ops' \<Rightarrow>
                   bind_res (setValue S (instValue I) e h c) (\<lambda>h1.
                     phi_writes S rest ops' h1 c)))
      | _ \<Rightarrow> Inr h)"

definition OpSemPhiVisitor_visitBasicBlock ::
  "sem \<Rightarrow> basicBlock \<Rightarrow> heap \<Rightarrow> nat \<Rightarrow> error + heap" where
  "OpSemPhiVisitor_visitBasicBlock S BB h c =
     bind_res (phi_reads S (insts BB) h c) (\<lambda>ops. phi_writes S (insts BB) ops h c)"

text \<open>\<open>Bv2OpSem::intraPhi\<close> and \<open>Bv2OpSem::execPhi\<close>.\<close>

definition intraPhi :: "sem \<Rightarrow> heap \<Rightarrow> nat \<Rightarrow> error + heap" where
  "intraPhi S h c =
     llvm_assert (m_prev (h c) \<noteq> None) ''C.getPrevBb()''
       (case m_bb (h c) of
          None \<Rightarrow> Inl (NullDereference ''C.getCurrBb()'')
        | Some BB \<Rightarrow> OpSemPhiVisitor_visitBasicBlock S BB h c)"

definition execPhi :: "sem \<Rightarrow> basicBlock \<Rightarrow> basicBlock \<Rightarrow> heap \<Rightarrow> nat \<Rightarrow> error + heap" where
  "execPhi S bb from h c =
     bind_res (onBasicBlockEntry bb h c) (\<lambda>h1. intraPhi S (setPrevBb from h1 c) c)"

subsection \<open>Branches\<close>

text \<open>The two statements of \<open>intraBr\<close> that mark an edge as infeasible.\<close>

definition infeasibleEdge :: "sem \<Rightarrow> basicBlock \<Rightarrow> heap \<Rightarrow> nat \<Rightarrow> heap" where
  "infeasibleEdge S cur h c =
     (let h1 = resetSide h c
      in addScopedSide (ctx_read h1 c (errorFlag S cur)) h1 c)"

text \<open>\<open>Bv2OpSem::intraBr\<close>. Successors and \<open>dst\<close> are compared as block addresses.\<close>

definition intraBr :: "sem \<Rightarrow> basicBlock \<Rightarrow> heap \<Rightarrow> nat \<Rightarrow> error + heap" where
  "intraBr S dst h c =
     bind_res (getCurrentInst h c) (\<lambda>(cur, I).
       case getOpcode I of
         CondBr cnd succ0 succ1 \<Rightarrow>
           (let h1 = next_inst h c
            in if isaConstant cnd then
                 bind_res (sem_getConstantValue S cnd) (\<lambda>gv.
                   case gv of
                     None \<Rightarrow> Inl (AssertionFailed ''gv.hasValue()'')
                   | Some g \<Rightarrow>
                       if isOneValue (IntVal g) \<and> succ0 \<noteq> bbValue dst
                          \<or> isNullAPInt (IntVal g) \<and> succ1 \<noteq> bbValue dst
                       then Inr (infeasibleEdge S cur h1 c)
                       else Inr h1)
               else
                 bind_res (getOperandValue S cnd h1 c) (\<lambda>target.
                   case target of
                     Some tgt \<Rightarrow>
                       (let cond = (if succ0 = bbValue dst then tgt else NEG tgt);
                            cond' = lor (ctx_read h1 c (errorFlag S cur)) cond
                        in onBasicBlockEntry dst (addScopedSide cond' h1 c) c)
                   | None \<Rightarrow> Inr h1))
       | Br succ0 \<Rightarrow>
           (let h1 = next_inst h c
            in if succ0 \<noteq> bbValue dst then Inr (infeasibleEdge S cur h1 c)
               else onBasicBlockEntry dst h1 c)
       | _ \<Rightarrow> Inr h)"

text \<open>\<open>BasicBlock::getTerminator\<close> gives the last instruction when it is a terminator;
  \<open>Bv2OpSem::execBr\<close> positions the context there and runs \<open>intraBr\<close>.\<close>

definition isTerminator :: "instruction \<Rightarrow> bool" where
  "isTerminator I = (case getOpcode I of
       Br s \<Rightarrow> True | CondBr cnd s0 s1 \<Rightarrow> True | OtherTerminator \<Rightarrow> True | _ \<Rightarrow> False)"

definition execBr :: "sem \<Rightarrow> basicBlock \<Rightarrow> basicBlock \<Rightarrow> heap \<Rightarrow> nat \<Rightarrow> error + heap" where
  "execBr S src dst h c =
     bind_res (onBasicBlockEntry src h c) (\<lambda>h1.
       if insts src \<noteq> [] \<and> isTerminator (last (insts src)) then
         intraBr S dst (upd c (\<lambda>x. x\<lparr>m_inst := length (insts src) - 1\<rparr>) h1) c
       else Inl (NullDereference ''src.getTerminator()''))"

text \<open>The constructor \<open>Bv2OpSemContext(sem, values, side)\<close> of a root context; the
  path condition starts as true.\<close>

definition mkContext :: "(expr \<rightharpoonup> expr) \<Rightarrow> expr list \<Rightarrow> ctx" where
  "mkContext values side =
     \<lparr>m_values = values, m_counter = 0, m_side = side, m_pathCond = TRUE,
      m_func = None, m_bb = None, m_inst = 0, m_prev = None,
      m_readRegister = None, m_writeRegister = None, m_scalar = False,
      m_trfrReadReg = None, m_fparams = [], m_ignored = {}, m_registers = {},
      m_valueToRegister = Map.empty, m_memManager = True, m_parent = None, errs = []\<rparr>"

section \<open>The register invariant\<close>

text \<open>
  The register that \<open>mkRegister\<close> builds for a value depends on the value and on the
  configuration only; \<open>canonical\<close> is that register. A store of contexts is well formed
  when every entry of every value-to-register map sends a value to its canonical
  register. The maps start empty and only \<open>mkRegister\<close> adds to them.
\<close>

definition canonical :: "sem \<Rightarrow> llvm_value \<Rightarrow> error + expr" where
  "canonical S v =
     (case getValueKind v of
        BasicBlockV \<Rightarrow> Inr (BoolConst (BBLOCK v))
      | InstructionV \<Rightarrow> mkInstructionRegister S v
      | FunctionV \<Rightarrow> Inr (MkConst (VALUE v) (mem_mkPtrRegisterSort S v))
      | GlobalVariableV \<Rightarrow> Inr (MkConst (VALUE v) (ptrSort S))
      | _ \<Rightarrow> Inl (Unreachable ''cannot make symbolic register''))"

definition wf_registers :: "sem \<Rightarrow> heap \<Rightarrow> bool" where
  "wf_registers S h =
     (\<forall>c v r. m_valueToRegister (h c) v = Some r \<longrightarrow> canonical S v = Inr r)"

text \<open>\<open>isa<PHINode>\<close>.\<close>

definition isPHINode :: "instruction \<Rightarrow> bool" where
  "isPHINode I = (case getOpcode I of PHI incoming \<Rightarrow> True | _ \<Rightarrow> False)"

section \<open>Auxiliary notions\<close>

text \<open>What \<open>declareRegister\<close> followed by the map insertion does when the value has no
  entry yet.\<close>

definition registered :: "llvm_value \<Rightarrow> expr \<Rightarrow> heap \<Rightarrow> nat \<Rightarrow> heap" where
  "registered v r h c =
     upd c (\<lambda>x. x\<lparr>m_registers := insert r (m_registers x),
                    m_valueToRegister := (m_valueToRegister x)(v \<mapsto> r)\<rparr>) h"

text \<open>The value that \<open>Bv2OpSemContext::write\<close> puts into the store.\<close>

definition wval :: "sem \<Rightarrow> expr \<Rightarrow> expr" where
  "wval S u = (if SimplifyOnWrite S then z3_simplify S u else u)"

section \<open>Example inputs\<close>

text \<open>
  A configuration with the default options, logging enabled for the tag \<open>opsem\<close>,
  a 32-bit data layout, and term builders that wrap their arguments. Values whose
  identifier is 100 or more are shadow-memory pseudo-values without a scalar.
\<close>

definition ex_sem :: sem where
  "ex_sem =
     \<lparr>EnableUniqueScalars2 = True, IgnoreCalloc2 = False, SimplifyOnWrite = False,
      m_trackLvl = MEM, m_canFail = None, SeaLog = {''opsem''},
      shadow_isShadowMem = (\<lambda>v. (100 \<le> valueID v, None)),
      soleUserIsShadowMemCall = (\<lambda>v. False),
      base_errorFlag = (\<lambda>bb. BoolConst (App ''error.flag'' [])),
      z3_simplify = (\<lambda>e. e),
      td_sizeInBits = (\<lambda>t. case t of IntegerTy w \<Rightarrow> w | PointerTy e \<Rightarrow> 32 | _ \<Rightarrow> 0),
      foldConstantExpr = (\<lambda>v. Inr None),
      toMpz = (\<lambda>a. int (getZExtValue a)),
      alu_intTy = BvSort, alu_si = BvNum,
      alu_bv1ToBool = (\<lambda>e. App ''bv1ToBool'' [e]),
      alu_boolToBv1 = (\<lambda>e. App ''boolToBv1'' [e]),
      mem_ptrSzInBits = 32,
      mem_mkPtrRegisterSort = (\<lambda>v. BvSort 32),
      mem_mkMemRegisterSort = (\<lambda>v. App ''array'' [BvSort 32, BvSort 32]),
      mem_coerce = (\<lambda>reg val. val),
      mem_loadTerm = (\<lambda>p m t a. Inr (Some (Select m p))),
      mem_storeTerm = (\<lambda>v p m t a. Inr (Some (App ''store'' [m, p, v]))),
      mem_memSetTerm = (\<lambda>p v n m a. Inr (Some (App ''memset'' [m, p, v]))),
      mem_memCpyTerm = (\<lambda>d s n mt m a. Inr (Some (App ''memcpy'' [m, mt, d, s])))\<rparr>"

definition ex_fn :: llvm_function where
  "ex_fn = Function (Value 0 FunctionV (PointerTy FunctionTy)) ''f''"

definition ex_label :: "nat \<Rightarrow> llvm_value" where
  "ex_label n = Value n BasicBlockV LabelTy"

definition ex_block :: "nat \<Rightarrow> instruction list \<Rightarrow> basicBlock" where
  "ex_block n is = BasicBlock (ex_label n) ex_fn is"

definition ex_term :: "opcode \<Rightarrow> instruction" where
  "ex_term opc = Instruction (Value 9 InstructionV VoidTy) opc"

definition ex_dst :: basicBlock where
  "ex_dst = ex_block 2 [ex_term OtherTerminator]"

text \<open>A root context standing at the terminator of a one-instruction block, with one
  side-condition already collected.\<close>

definition ex_at :: "basicBlock \<Rightarrow> heap" where
  "ex_at b = (\<lambda>a. (mkContext Map.empty [TRUE])\<lparr>m_bb := Some b\<rparr>)"

definition ex_i1 :: "nat \<Rightarrow> llvm_value" where
  "ex_i1 n = Value n InstructionV (IntegerTy 1)"

definition ex_arg :: "nat \<Rightarrow> llvm_value" where
  "ex_arg n = Value n ArgumentV (IntegerTy 1)"

text \<open>The condition is the result of instruction 7, for which a register holding the
  value \<open>App ''c'' []\<close> exists.\<close>

definition ex_at_reg :: "basicBlock \<Rightarrow> heap" where
  "ex_at_reg b =
     (\<lambda>a. (mkContext [MkConst (VALUE (ex_i1 7)) (BvSort 1) \<mapsto> App ''c'' []] [TRUE])
             \<lparr>m_bb := Some b,
              m_valueToRegister := [ex_i1 7 \<mapsto> MkConst (VALUE (ex_i1 7)) (BvSort 1)]\<rparr>)"

definition ex_reg :: "llvm_value \<Rightarrow> expr" where
  "ex_reg v = MkConst (VALUE v) (BvSort (case getType v of IntegerTy w \<Rightarrow> w | _ \<Rightarrow> 32))"

definition ex_i32 :: "nat \<Rightarrow> llvm_value" where
  "ex_i32 n = Value n InstructionV (IntegerTy 32)"

definition ex_i8 :: "nat \<Rightarrow> llvm_value" where
  "ex_i8 n = Value n InstructionV (IntegerTy 8)"

definition ex_ptr :: "nat \<Rightarrow> llvm_value" where
  "ex_ptr n = Value n InstructionV (PointerTy (IntegerTy 32))"

text \<open>
  A root context in which the instructions 11 and 13 (pointers), 12 (an \<open>i32\<close>), 14 (an
  \<open>i8\<close>) and 15 (an \<open>i32\<close>) have registers, and whose meta-registers are as given.
\<close>

definition ex_mem :: "expr option \<Rightarrow> expr option \<Rightarrow> expr option \<Rightarrow> heap" where
  "ex_mem rd wr tr =
     (\<lambda>a. (mkContext Map.empty [])
             \<lparr>m_readRegister := rd, m_writeRegister := wr, m_trfrReadReg := tr,
              m_valueToRegister :=
                [ex_ptr 11 \<mapsto> ex_reg (ex_ptr 11), ex_i32 12 \<mapsto> ex_reg (ex_i32 12),
                 ex_ptr 13 \<mapsto> ex_reg (ex_ptr 13), ex_i8 14 \<mapsto> ex_reg (ex_i8 14),
                 ex_i32 15 \<mapsto> ex_reg (ex_i32 15)]\<rparr>)"

definition ex_memIn :: expr where
  "ex_memIn = MkConst (VALUE (ex_i32 100)) (App ''array'' [BvSort 32, BvSort 32])"

definition ex_memOut :: expr where
  "ex_memOut = MkConst (VALUE (ex_i32 101)) (App ''array'' [BvSort 32, BvSort 32])"

definition ex_memTr :: expr where
  "ex_memTr = MkConst (VALUE (ex_i32 102)) (App ''array'' [BvSort 32, BvSort 32])"

definition ex_len8 :: llvm_value where
  "ex_len8 = Value 16 (ConstantIntV 8) (IntegerTy 32)"

text \<open>A root context at address 0 that has declared the register of instruction 12, and
  a fork of it at address 1.\<close>

definition ex_lineage :: heap where
  "ex_lineage =
     fork 0 1 Map.empty []
       (\<lambda>a. (mkContext Map.empty [])
               \<lparr>m_registers := {ex_reg (ex_i32 12)},
                m_valueToRegister := [ex_i32 12 \<mapsto> ex_reg (ex_i32 12)]\<rparr>)"

text \<open>
  Two PHI nodes that exchange the values of the instructions 30 and 31 along the edge
  from block 4, in both declaration orders, and a context that comes from block 4 with
  the values \<open>A\<close> and \<open>B\<close> in their registers.
\<close>

definition ex_phi :: "nat \<Rightarrow> nat \<Rightarrow> instruction" where
  "ex_phi n m = Instruction (ex_i32 n) (PHI [(ex_label 4, ex_i32 m)])"

definition ex_swap :: basicBlock where
  "ex_swap = ex_block 2 [ex_phi 30 31, ex_phi 31 30, ex_term OtherTerminator]"

definition ex_swap_rev :: basicBlock where
  "ex_swap_rev = ex_block 2 [ex_phi 31 30, ex_phi 30 31, ex_term OtherTerminator]"

definition ex_phis :: heap where
  "ex_phis =
     (\<lambda>a. (mkContext [ex_reg (ex_i32 30) \<mapsto> App ''A'' [], ex_reg (ex_i32 31) \<mapsto> App ''B'' []] [])
             \<lparr>m_prev := Some (ex_block 4 [ex_term (Br (ex_label 2))]),
              m_valueToRegister :=
                [ex_i32 30 \<mapsto> ex_reg (ex_i32 30), ex_i32 31 \<mapsto> ex_reg (ex_i32 31)]\<rparr>)"


section \<open>Basic facts\<close>

lemma bind_res_Inl [simp]: "bind_res (Inl e) f = Inl e"
  by (simp add: bind_res_def)

lemma bind_res_Inr [simp]: "bind_res (Inr x) f = f x"
  by (simp add: bind_res_def)

lemma bind_res_eq_Inr: "bind_res m f = Inr y \<longleftrightarrow> (\<exists>x. m = Inr x \<and> f x = Inr y)"
  by (cases m) simp_all

lemma llvm_assert_True [simp]: "llvm_assert True msg k = k"
  by (simp add: llvm_assert_def)

lemma llvm_assert_False [simp]: "llvm_assert False msg k = Inl (AssertionFailed msg)"
  by (simp add: llvm_assert_def)

lemma upd_same [simp]: "upd c f h c = f (h c)"
  by (simp add: upd_def)

lemma upd_other [simp]: "c' \<noteq> c \<Longrightarrow> upd c f h c' = h c'"
  by (simp add: upd_def)

lemma getRegister_cong:
  assumes "\<And>a. m_valueToRegister (h' a) = m_valueToRegister (h a)"
      and "\<And>a. m_parent (h' a) = m_parent (h a)"
  shows "getRegister h' c v = getRegister h c v"
proof (induction c rule: less_induct)
  case (less c)
  show ?case
    by (subst getRegister.simps, subst (2) getRegister.simps)
       (simp add: assms less split: option.splits)
qed

lemma getRegister_upd [simp]:
  assumes "m_valueToRegister (f (h c)) = m_valueToRegister (h c)"
      and "m_parent (f (h c)) = m_parent (h c)"
  shows "getRegister (upd c f h) a v = getRegister h a v"
  by (rule getRegister_cong) (auto simp: upd_def assms)

lemma getRegister_next_inst [simp]: "getRegister (next_inst h c) a v = getRegister h a v"
  by (simp add: next_inst_def)

lemma ctx_read_next_inst [simp]: "ctx_read (next_inst h c) a r = ctx_read h a r"
  by (cases "a = c") (simp_all add: ctx_read_def next_inst_def)

lemma getOperandValue_next_inst [simp]:
  "getOperandValue S v (next_inst h c) a = getOperandValue S v h a"
  by (simp add: getOperandValue_def split: valueKind.splits option.splits)

lemma next_inst_apply:
  "next_inst h c a = (if a = c then (h c)\<lparr>m_inst := Suc (m_inst (h c))\<rparr> else h a)"
  by (simp add: next_inst_def upd_def)

lemma getCurrentInst_eq:
  "m_bb (h c) = Some cur \<Longrightarrow> m_inst (h c) < length (insts cur) \<Longrightarrow>
   getCurrentInst h c = Inr (cur, insts cur ! m_inst (h c))"
  by (simp add: getCurrentInst_def)

lemma infeasibleEdge_fields:
  "m_side (infeasibleEdge S cur h c c) = [ctx_read h c (errorFlag S cur)]"
  "m_bb (infeasibleEdge S cur h c c) = m_bb (h c)"
  "m_values (infeasibleEdge S cur h c c) = m_values (h c)"
  by (simp_all add: infeasibleEdge_def resetSide_def addScopedSide_def addSide_def
        ctx_read_def Let_def)

lemma meta_register_fields [simp]:
  "getMemReadRegister (setMemReadRegister r h c) c = r"
  "getMemReadRegister (setMemWriteRegister r h c) c = getMemReadRegister h c"
  "getMemWriteRegister (setMemWriteRegister r h c) c = r"
  "getMemWriteRegister (setMemReadRegister r h c) c = getMemWriteRegister h c"
  "getMemTrsfrReadReg (setMemTrsfrReadReg r h c) c = r"
  by (simp_all add: getMemReadRegister_def setMemReadRegister_def getMemWriteRegister_def
        setMemWriteRegister_def getMemTrsfrReadReg_def setMemTrsfrReadReg_def)





lemmas prim_defs = upd_def LOG_def OpSemContext_write_def Bv2OpSemContext_write_def
  ctx_havoc_def addSide_def addDef_def addScopedSide_def resetSide_def
  setMemReadRegister_def setMemWriteRegister_def setMemTrsfrReadReg_def
  ignore_def declareRegister_def valueToRegister_insert_def setPrevBb_def next_inst_def

lemma getRegister_None_local:
  "getRegister h c v = None \<Longrightarrow> m_valueToRegister (h c) v = None"
  by (subst (asm) getRegister.simps) (simp split: option.splits)

lemma insert_after_declare:
  "m_valueToRegister (h c) v = None \<Longrightarrow>
   valueToRegister_insert v r (declareRegister r h c) c = registered v r h c"
  by (simp add: valueToRegister_insert_def declareRegister_def registered_def upd_def)

lemma mkRegister_cases:
  assumes "mkRegister S v h c = Inr (r, h')"
  shows "getRegister h c v = Some r \<and> h' = h
         \<or> getRegister h c v = None \<and> h' = registered v r h c"
  using assms
  by (auto simp: mkRegister_def mkRegister_BasicBlock_def mkRegister_Instruction_def
        mkRegister_Function_def mkRegister_GlobalVariable_def bind_res_eq_Inr Let_def
        insert_after_declare getRegister_None_local
        split: valueKind.splits option.splits)

lemma registered_apply:
  "registered v r h c a =
     (if a = c then (h c)\<lparr>m_registers := insert r (m_registers (h c)),
                          m_valueToRegister := (m_valueToRegister (h c))(v \<mapsto> r)\<rparr>
      else h a)"
  by (simp add: registered_def upd_def)

lemma mkRegister_frame:
  assumes "mkRegister S v h c = Inr (r, h')"
  shows "m_side (h' a) = m_side (h a)" "errs (h' a) = errs (h a)"
        "m_readRegister (h' a) = m_readRegister (h a)"
        "m_writeRegister (h' a) = m_writeRegister (h a)"
        "m_values (h' a) = m_values (h a)"
        "m_counter (h' a) = m_counter (h a)"
        "m_memManager (h' a) = m_memManager (h a)"
        "m_ignored (h' a) = m_ignored (h a)"
        "m_prev (h' a) = m_prev (h a)"
        "m_parent (h' a) = m_parent (h a)"
  using mkRegister_cases [OF assms] by (auto simp: registered_apply split: if_splits)

lemma write_apply:
  "Bv2OpSemContext_write S reg u h c a =
     (if a = c then (h c)\<lparr>m_values := (m_values (h c))(reg \<mapsto> wval S u)\<rparr> else h a)"
  by (simp add: Bv2OpSemContext_write_def OpSemContext_write_def upd_def wval_def)

lemma havocRegister_apply:
  "snd (havocRegister S reg h c) a =
     (if a = c
      then (h c)\<lparr>m_values := (m_values (h c))
                      (reg \<mapsto> wval S (mem_coerce S reg (Variant (m_counter (h c)) reg))),
                  m_counter := Suc (m_counter (h c))\<rparr>
      else h a)"
  by (simp add: havocRegister_def ctx_havoc_def Let_def write_apply upd_def)

lemma havocRegister_fst:
  "fst (havocRegister S reg h c) = mem_coerce S reg (Variant (m_counter (h c)) reg)"
  by (simp add: havocRegister_def ctx_havoc_def Let_def)

lemma havoc_cases:
  assumes "havoc S v h c = Inr (r, h')"
  shows "r = None \<and> h' = h
         \<or> (\<exists>reg h1. (getRegister h c v = Some reg \<and> h1 = h
                        \<or> mkRegister S v h c = Inr (reg, h1))
                      \<and> h' = snd (havocRegister S reg h1 c)
                      \<and> r = Some (fst (havocRegister S reg h1 c)))"
  using assms
  by (auto simp: havoc_def bind_res_eq_Inr llvm_assert_def split_def Let_def
      split: if_splits option.splits)

lemma havoc_frame:
  assumes "havoc S v h c = Inr (r, h')"
  shows "m_side (h' a) = m_side (h a)" "errs (h' a) = errs (h a)"
        "m_readRegister (h' a) = m_readRegister (h a)"
        "m_writeRegister (h' a) = m_writeRegister (h a)"
  using havoc_cases [OF assms]
  by (auto simp: havocRegister_apply mkRegister_frame)

lemma write_cases:
  assumes "OpSemVisitorBase_write S v e h c = Inr h'"
  shows "h' = h
         \<or> (\<exists>reg h1. (getRegister h c v = Some reg \<and> h1 = h
                        \<or> mkRegister S v h c = Inr (reg, h1))
                      \<and> h' = Bv2OpSemContext_write S reg e h1 c)"
  using assms
  by (auto simp: OpSemVisitorBase_write_def bind_res_eq_Inr llvm_assert_def split_def
      split: if_splits option.splits)

lemma write_frame:
  assumes "OpSemVisitorBase_write S v e h c = Inr h'"
  shows "m_side (h' a) = m_side (h a)" "errs (h' a) = errs (h a)"
        "m_readRegister (h' a) = m_readRegister (h a)"
        "m_writeRegister (h' a) = m_writeRegister (h a)"
  using write_cases [OF assms]
  by (auto simp: write_apply mkRegister_frame)

lemma unhandledValue_frame:
  "m_side (unhandledValue S v h c a) = m_side (h a)"
  "m_readRegister (unhandledValue S v h c a) = m_readRegister (h a)"
  "m_writeRegister (unhandledValue S v h c a) = m_writeRegister (h a)"
  by (simp_all add: unhandledValue_def unhandledInst_def LOG_def ignore_def upd_def)

lemma setValue_side:
  assumes "setValue S v e h c = Inr h'"
  shows "m_side (h' a) = m_side (h a)"
        "m_readRegister (h' a) = m_readRegister (h a)"
        "m_writeRegister (h' a) = m_writeRegister (h a)"
  using assms
  by (auto simp: setValue_def bind_res_eq_Inr write_frame havoc_frame unhandledValue_frame
        split_def split: option.splits)

lemmas ex_defs = ex_sem_def ex_fn_def ex_label_def ex_block_def ex_term_def ex_dst_def
  ex_at_def ex_i1_def ex_arg_def ex_at_reg_def mkContext_def ex_reg_def ex_i32_def ex_i8_def
  ex_ptr_def ex_mem_def ex_memIn_def ex_memOut_def ex_memTr_def

lemmas meta_defs = getMemReadRegister_def getMemWriteRegister_def getMemTrsfrReadReg_def
  isMemScalar_def

lemma tail_result:
  assumes "bind_res m (\<lambda>(res, h1). Inr (res, G res h1)) = Inr (r, h')"
  shows "\<exists>h1. m = Inr (r, h1)"
proof (cases m)
  case (Inl e)
  with assms show ?thesis by simp
next
  case (Inr x)
  with assms show ?thesis by (cases x) auto
qed

lemma skip_results:
  "skipMemSet S h c \<noteq> Inr (Some t, h')" "skipMemCpy S h c \<noteq> Inr (Some t, h')"
  by (simp_all add: skipMemSet_def skipMemCpy_def)

lemma memset_result_needs_constant:
  assumes "executeMemSetInst S dst val len al h c = Inr (Some t, h')"
  shows "isConstantInt len"
proof -
  from assms obtain addr v h1 where
    "(case (v, addr) of
        (Some v0, Some addr0) \<Rightarrow>
          (case getValueKind len of
             ConstantIntV n \<Rightarrow> MemSet S addr0 v0 n al h c
           | _ \<Rightarrow> Inl (Unreachable ''Unsupported memset with symbolic length''))
      | _ \<Rightarrow> Inr (None, h)) = Inr (Some t, h1)"
    by (auto simp: executeMemSetInst_def skip_results bind_res_eq_Inr llvm_assert_def Let_def
        split: if_splits dest!: tail_result)
  then show ?thesis
    by (auto simp: isConstantInt_def split: option.splits valueKind.splits)
qed

lemma memcpy_result_needs_constant:
  assumes "executeMemCpyInst S dst src len al h c = Inr (Some t, h')"
  shows "isConstantInt len"
proof -
  from assms obtain d s h1 where
    "(case (d, s) of
        (Some d0, Some s0) \<Rightarrow>
          (case getValueKind len of
             ConstantIntV n \<Rightarrow> MemCpy S d0 s0 n al h c
           | _ \<Rightarrow> Inl (Unreachable ''Unsupported memcpy with symbolic length''))
      | _ \<Rightarrow> Inr (None, h)) = Inr (Some t, h1)"
    by (auto simp: executeMemCpyInst_def skip_results bind_res_eq_Inr Let_def
        split: if_splits dest!: tail_result)
  then show ?thesis
    by (auto simp: isConstantInt_def split: option.splits valueKind.splits)
qed

lemmas eval_defs = isSkipped_def isShadowMem_def lookup_def getOperandValue_def
  getRegister.simps getConstantValue_def isNullValue_def ctx_read_def
  loadValueFromMem_def storeValueToMem_def MemSet_def MemCpy_def mm_loadValueFromMem_def
  mm_storeValueToMem_def mm_MemSet_def mm_MemCpy_def mm_writeResult_def

lemmas visitor_defs = havoc_def havocRegister_def setValue_def OpSemVisitorBase_write_def
  mkRegister_def mkRegister_Instruction_def mkInstructionRegister_def unhandledValue_def
  unhandledInst_def isIgnored_def

lemma getRegister_local:
  "m_valueToRegister (h c) v = Some r \<Longrightarrow> getRegister h c v = Some r"
  by (subst getRegister.simps) simp

lemma getRegister_canonical:
  assumes "wf_registers S h"
  shows "getRegister h c v = Some r \<Longrightarrow> canonical S v = Inr r"
proof (induction c rule: less_induct)
  case (less c)
  from less.prems show ?case
    apply (subst (asm) getRegister.simps)
    using assms less.IH
    apply (auto simp: wf_registers_def split: option.splits if_splits)
    done
qed

lemma mkRegister_new_canonical:
  assumes "mkRegister S v h c = Inr (r, h')" and "getRegister h c v = None"
  shows "canonical S v = Inr r"
  using assms
  by (auto simp: mkRegister_def mkRegister_BasicBlock_def mkRegister_Instruction_def
        mkRegister_Function_def mkRegister_GlobalVariable_def bind_res_eq_Inr Let_def
        canonical_def split: valueKind.splits)

lemma mkRegister_found:
  assumes "getRegister h c v = Some r" and "canonical S v = Inr r"
  shows "mkRegister S v h c = Inr (r, h)"
  using assms
  by (auto simp: mkRegister_def mkRegister_BasicBlock_def mkRegister_Instruction_def
        mkRegister_Function_def mkRegister_GlobalVariable_def canonical_def
        split: valueKind.splits)

lemma wf_registered:
  assumes "wf_registers S h" and "canonical S v = Inr r"
  shows "wf_registers S (registered v r h c)"
  using assms by (auto simp: wf_registers_def registered_apply split: if_splits)

lemma mkRegister_wf:
  assumes "wf_registers S h" and "mkRegister S v h c = Inr (r, h')"
  shows "wf_registers S h' \<and> canonical S v = Inr r"
  using mkRegister_cases [OF assms(2)] assms
  by (auto simp: wf_registered mkRegister_new_canonical getRegister_canonical)

lemma getRegister_registered:
  "getRegister (registered v r h c) c v = Some r"
  by (rule getRegister_local) (simp add: registered_apply)

lemma wf_fork:
  assumes "wf_registers S h"
  shows "wf_registers S (fork p n values side h)"
  using assms by (auto simp: wf_registers_def fork_def)

lemma canonical_inj:
  assumes "canonical S p = Inr r" and "canonical S q = Inr r"
  shows "p = q"
  using assms
  by (auto simp: canonical_def mkInstructionRegister_def Let_def
      split: valueKind.splits prod.splits bool.splits option.splits ty.splits)

lemma getRegister_below:
  assumes "\<And>a. a \<le> c \<Longrightarrow> m_valueToRegister (h' a) = m_valueToRegister (h a)
                          \<and> m_parent (h' a) = m_parent (h a)"
  shows "getRegister h' c v = getRegister h c v"
  using assms
proof (induction c rule: less_induct)
  case (less c)
  have here: "m_valueToRegister (h' c) = m_valueToRegister (h c)"
    "m_parent (h' c) = m_parent (h c)"
    using less.prems [of c] by simp_all
  have below: "\<And>p. p < c \<Longrightarrow> getRegister h' p v = getRegister h p v"
    using less.IH less.prems by simp
  show ?case
    by (subst getRegister.simps, subst (2) getRegister.simps)
       (simp add: here below split: option.splits)
qed

lemma getRegister_registered_other:
  assumes "q \<noteq> v"
  shows "getRegister (registered v r h c) c q = getRegister h c q"
proof -
  have below: "\<And>p. p < c \<Longrightarrow> getRegister (registered v r h c) p q = getRegister h p q"
    by (rule getRegister_below) (simp add: registered_apply)
  show ?thesis
    by (subst getRegister.simps, subst (2) getRegister.simps)
       (simp add: registered_apply assms below split: option.splits)
qed

lemma getRegister_write [simp]:
  "getRegister (Bv2OpSemContext_write S reg u h c) a v = getRegister h a v"
  by (rule getRegister_cong) (simp_all add: write_apply)

lemma wf_write [simp]:
  "wf_registers S (Bv2OpSemContext_write S' reg u h c) = wf_registers S h"
  by (auto simp: wf_registers_def write_apply split: if_splits)

lemma find_or_make:
  assumes wf: "wf_registers S h"
      and reg: "getRegister h c p = Some reg \<and> h1 = h \<or> mkRegister S p h c = Inr (reg, h1)"
  shows "canonical S p = Inr reg \<and> getRegister h1 c p = Some reg \<and> wf_registers S h1
         \<and> m_values (h1 c) = m_values (h c)
         \<and> (\<forall>q r. getRegister h c q = Some r \<longrightarrow> getRegister h1 c q = Some r)"
proof -
  from reg consider
      (found) "getRegister h c p = Some reg" "h1 = h"
    | (made) "getRegister h c p = None" "h1 = registered p reg h c"
             "mkRegister S p h c = Inr (reg, h1)"
    using mkRegister_cases [of S p h c reg h1] by auto
  then show ?thesis
  proof cases
    case found
    with wf show ?thesis by (simp add: getRegister_canonical)
  next
    case made
    from mkRegister_wf [OF wf made(3)]
    have can: "canonical S p = Inr reg" and wf1: "wf_registers S h1" by simp_all
    have mono: "\<forall>q r. getRegister h c q = Some r \<longrightarrow> getRegister h1 c q = Some r"
    proof (intro allI impI)
      fix q r assume q: "getRegister h c q = Some r"
      with made(1) have "q \<noteq> p" by auto
      with q show "getRegister h1 c q = Some r"
        by (simp add: made(2) getRegister_registered_other)
    qed
    from can wf1 mono made(2) show ?thesis
      by (simp add: getRegister_registered registered_apply)
  qed
qed

lemma unhandledValue_fields [simp]:
  "m_valueToRegister (unhandledValue S v h c a) = m_valueToRegister (h a)"
  "m_parent (unhandledValue S v h c a) = m_parent (h a)"
  "m_values (unhandledValue S v h c a) = m_values (h a)"
  by (simp_all add: unhandledValue_def unhandledInst_def LOG_def ignore_def upd_def)

lemma getRegister_unhandledValue [simp]:
  "getRegister (unhandledValue S v h c) a q = getRegister h a q"
  by (rule getRegister_cong) simp_all

lemma wf_unhandledValue [simp]:
  "wf_registers S (unhandledValue S' v h c) = wf_registers S h"
  by (simp add: wf_registers_def)

lemma havocRegister_fields [simp]:
  "m_valueToRegister (snd (havocRegister S reg h c) a) = m_valueToRegister (h a)"
  "m_parent (snd (havocRegister S reg h c) a) = m_parent (h a)"
  by (simp_all add: havocRegister_apply)

lemma getRegister_havocRegister [simp]:
  "getRegister (snd (havocRegister S reg h c)) a q = getRegister h a q"
  by (rule getRegister_cong) simp_all

lemma wf_havocRegister [simp]:
  "wf_registers S (snd (havocRegister S' reg h c)) = wf_registers S h"
  by (simp add: wf_registers_def)

lemma setValue_effect:
  assumes wf: "wf_registers S h"
      and sv: "setValue S p e h c = Inr h1"
      and ns: "isSkipped S p = Inr False"
  shows "\<exists>reg. canonical S p = Inr reg \<and> getRegister h1 c p = Some reg \<and> wf_registers S h1
           \<and> (\<forall>r. r \<noteq> reg \<longrightarrow> m_values (h1 c) r = m_values (h c) r)
           \<and> (\<forall>q r. getRegister h c q = Some r \<longrightarrow> getRegister h1 c q = Some r)
           \<and> (\<forall>x. e = Some x \<longrightarrow> m_values (h1 c) reg = Some (wval S x))"
proof (cases e)
  case (Some x)
  with sv ns obtain reg h0 where
    reg: "getRegister h c p = Some reg \<and> h0 = h \<or> mkRegister S p h c = Inr (reg, h0)"
    and h1: "h1 = Bv2OpSemContext_write S reg x h0 c"
    by (auto simp: setValue_def OpSemVisitorBase_write_def bind_res_eq_Inr llvm_assert_def
        split_def split: option.splits if_splits)
  from find_or_make [OF wf reg] Some h1 show ?thesis
    by (auto simp: write_apply)
next
  case None
  let ?hu = "unhandledValue S p h c"
  from None sv ns obtain reg h0 where
    reg: "getRegister ?hu c p = Some reg \<and> h0 = ?hu \<or> mkRegister S p ?hu c = Inr (reg, h0)"
    and h1: "h1 = snd (havocRegister S reg h0 c)"
    by (auto simp: setValue_def havoc_def bind_res_eq_Inr llvm_assert_def split_def Let_def
        split: option.splits if_splits)
  have "wf_registers S ?hu" using wf by simp
  from find_or_make [OF this reg] None h1 show ?thesis
    by (auto simp: havocRegister_apply)
qed

lemma phi_writes_preserves:
  assumes "wf_registers S h"
      and "phi_writes S is ops h c = Inr h'"
      and "canonical S p = Inr reg"
      and "getRegister h c p = Some reg"
      and "m_values (h c) reg = Some u"
      and "p \<notin> instValue ` set is"
  shows "getRegister h' c p = Some reg \<and> m_values (h' c) reg = Some u"
  using assms
proof (induction "is" arbitrary: ops h)
  case Nil
  then show ?case by simp
next
  case (Cons J rest)
  show ?case
  proof (cases "getOpcode J")
    case (PHI incoming)
    from Cons.prems(2) PHI obtain sk where sk: "isSkipped S (instValue J) = Inr sk"
      by (auto simp: bind_res_eq_Inr)
    show ?thesis
    proof (cases sk)
      case True
      with Cons.prems PHI sk have "phi_writes S rest ops h c = Inr h'" by simp
      with Cons.IH [of h ops] Cons.prems show ?thesis by simp
    next
      case False
      with Cons.prems(2) PHI sk obtain e ops' h1 where
        sv: "setValue S (instValue J) e h c = Inr h1"
        and rest: "phi_writes S rest ops' h1 c = Inr h'"
        by (auto simp: bind_res_eq_Inr split: list.splits)
      from setValue_effect [OF Cons.prems(1) sv] sk False obtain regJ where
        J: "canonical S (instValue J) = Inr regJ" "wf_registers S h1"
           "\<forall>r. r \<noteq> regJ \<longrightarrow> m_values (h1 c) r = m_values (h c) r"
           "\<forall>q r. getRegister h c q = Some r \<longrightarrow> getRegister h1 c q = Some r"
        by auto
      from Cons.prems(6) have "instValue J \<noteq> p" by auto
      with canonical_inj [OF J(1), of p] Cons.prems(3) have "regJ \<noteq> reg" by auto
      with J Cons.prems have "getRegister h1 c p = Some reg" "m_values (h1 c) reg = Some u"
        by auto
      with Cons.IH [OF J(2) rest Cons.prems(3)] Cons.prems(6) show ?thesis by simp
    qed
  qed (use Cons.prems in auto)
qed

lemma phi_target:
  assumes "wf_registers S h"
      and "phi_reads S is h0 c = Inr ops"
      and "phi_writes S is ops h c = Inr h'"
      and "distinct (map instValue is)"
      and "I \<in> set (takeWhile isPHINode is)"
      and "getOpcode I = PHI inc"
      and "isSkipped S (instValue I) = Inr False"
      and "getIncomingValueForBlock inc (m_prev (h0 c)) = Inr v"
      and "lookup S v h0 c = Inr (Some e)"
  shows "\<exists>reg. canonical S (instValue I) = Inr reg \<and> getRegister h' c (instValue I) = Some reg
           \<and> m_values (h' c) reg = Some (wval S e)"
  using assms(1-5)
proof (induction "is" arbitrary: ops h)
  case Nil
  then show ?case by simp
next
  case (Cons J rest)
  from Cons.prems(5) have phiJ: "isPHINode J" by (auto split: if_splits)
  then obtain incoming where PHI: "getOpcode J = PHI incoming"
    by (auto simp: isPHINode_def split: opcode.splits)
  from Cons.prems(3) PHI obtain sk where sk: "isSkipped S (instValue J) = Inr sk"
    by (auto simp: bind_res_eq_Inr)
  from Cons.prems(4) have dist: "distinct (map instValue rest)"
    and Jnot: "instValue J \<notin> instValue ` set rest" by auto
  show ?case
  proof (cases sk)
    case True
    with assms(7) sk have "I \<noteq> J" by auto
    with Cons.prems(5) phiJ have I: "I \<in> set (takeWhile isPHINode rest)" by simp
    from True Cons.prems PHI sk have "phi_reads S rest h0 c = Inr ops"
      "phi_writes S rest ops h c = Inr h'" by simp_all
    from Cons.IH [OF Cons.prems(1) this dist I] show ?thesis .
  next
    case False
    with Cons.prems(2) PHI sk obtain vJ eJ ops' where
      vJ: "getIncomingValueForBlock incoming (m_prev (h0 c)) = Inr vJ"
      and eJ: "lookup S vJ h0 c = Inr eJ"
      and reads: "phi_reads S rest h0 c = Inr ops'"
      and ops: "ops = eJ # ops'"
      by (auto simp: bind_res_eq_Inr)
    with False Cons.prems(3) PHI sk obtain h1 where
      sv: "setValue S (instValue J) eJ h c = Inr h1"
      and writes: "phi_writes S rest ops' h1 c = Inr h'"
      by (auto simp: bind_res_eq_Inr)
    from setValue_effect [OF Cons.prems(1) sv] sk False obtain regJ where
      J: "canonical S (instValue J) = Inr regJ" "getRegister h1 c (instValue J) = Some regJ"
         "wf_registers S h1" "\<forall>x. eJ = Some x \<longrightarrow> m_values (h1 c) regJ = Some (wval S x)"
      by auto
    show ?thesis
    proof (cases "I = J")
      case True
      with PHI assms(6) have "incoming = inc" by simp
      with vJ eJ assms(8,9) have "eJ = Some e" by simp
      with J have "m_values (h1 c) regJ = Some (wval S e)" by simp
      from phi_writes_preserves [OF J(3) writes J(1) J(2) this Jnot] J(1) True
      show ?thesis by auto
    next
      case False
      with Cons.prems(5) phiJ have I: "I \<in> set (takeWhile isPHINode rest)" by simp
      from Cons.IH [OF J(3) reads writes dist I] show ?thesis .
    qed
  qed
qed

lemma ex_canonical:
  "n < 100 \<Longrightarrow> canonical ex_sem (ex_i32 n) = Inr (ex_reg (ex_i32 n))"
  by (simp add: canonical_def mkInstructionRegister_def isShadowMem_def ex_defs)



section \<open>Claims\<close>

text \<open>
  C8. The solver context's \<open>pop()\<close> duplicates the \<open>push()\<close> call: it performs the same
  underlying context-push operation as \<open>push()\<close> instead of its inverse, so the sequence
  \<open>push(); pop()\<close> does not return the solver context to its pre-push state (it leaves
  two more open frames than before).
\<close>

theorem pop_duplicates_push:
  "pop s = push s \<and> pop (push s) \<noteq> s \<and>
   length (d_ctx (pop (push s))) = length (d_ctx s) + 2"
proof -
  have "d_ctx (pop (push s)) \<noteq> d_ctx s"
    by (simp add: pop_def push_def yices_push_def)
  then have "pop (push s) \<noteq> s" by auto
  then show ?thesis
    by (simp add: pop_def push_def yices_push_def)
qed

text \<open>
  C2. For an edge from the current block to \<open>dst\<close> whose terminator is an unconditional
  branch to another block, or a conditional branch on a compile-time constant that
  selects a successor other than \<open>dst\<close>, executing the branch returns normally, throws
  away every side-condition collected so far and leaves the value of the current block's
  error flag as the only side-condition; \<open>dst\<close> is not entered.
\<close>

theorem infeasible_edge_side_is_error_flag:
  assumes "m_bb (h c) = Some cur"
      and "m_inst (h c) < length (insts cur)"
      and "getOpcode (insts cur ! m_inst (h c)) = Br succ0 \<and> succ0 \<noteq> bbValue dst
           \<or> getOpcode (insts cur ! m_inst (h c)) = CondBr cnd succ0 succ1
              \<and> isaConstant cnd \<and> sem_getConstantValue S cnd = Inr (Some g)
              \<and> (isOneValue (IntVal g) \<and> succ0 \<noteq> bbValue dst
                  \<or> isNullAPInt (IntVal g) \<and> succ1 \<noteq> bbValue dst)"
  shows "\<exists>h'. intraBr S dst h c = Inr h'
           \<and> m_side (h' c) = [ctx_read h c (errorFlag S cur)]
           \<and> m_bb (h' c) = Some cur"
  using assms
  by (auto simp: intraBr_def getCurrentInst_eq infeasibleEdge_fields Let_def next_inst_apply
        ctx_read_def)

theorem infeasible_edge_side_is_error_flag_witness:
  "(\<exists>h'. intraBr ex_sem ex_dst
            (ex_at (ex_block 1 [ex_term (CondBr (Value 5 (ConstantIntV 1) (IntegerTy 1))
                                                (ex_label 3) (ex_label 2))])) 0 = Inr h'
        \<and> m_side (h' 0) = [BoolConst (App ''error.flag'' [])])
   \<and> (\<exists>h'. intraBr ex_sem ex_dst (ex_at (ex_block 1 [ex_term (Br (ex_label 3))])) 0 = Inr h'
        \<and> m_side (h' 0) = [BoolConst (App ''error.flag'' [])])"
proof -
  have a: "\<exists>h'. intraBr ex_sem ex_dst
            (ex_at (ex_block 1 [ex_term (CondBr (Value 5 (ConstantIntV 1) (IntegerTy 1))
                                                (ex_label 3) (ex_label 2))])) 0 = Inr h'
        \<and> m_side (h' 0) = [BoolConst (App ''error.flag'' [])]"
    using infeasible_edge_side_is_error_flag
          [of "ex_at (ex_block 1 [ex_term (CondBr (Value 5 (ConstantIntV 1) (IntegerTy 1))
                                               (ex_label 3) (ex_label 2))])" 0
              "ex_block 1 [ex_term (CondBr (Value 5 (ConstantIntV 1) (IntegerTy 1))
                                               (ex_label 3) (ex_label 2))]"
              "ex_label 3" ex_dst "Value 5 (ConstantIntV 1) (IntegerTy 1)" "ex_label 2"
              ex_sem "GenericValue (APInt 1 1)"]
    by (auto simp: ex_at_def ex_block_def ex_term_def ex_dst_def ex_label_def mkContext_def
        isaConstant_def sem_getConstantValue_def isOneValue_def ctx_read_def errorFlag_def
        ex_sem_def)
  have b: "\<exists>h'. intraBr ex_sem ex_dst (ex_at (ex_block 1 [ex_term (Br (ex_label 3))])) 0
             = Inr h'
        \<and> m_side (h' 0) = [BoolConst (App ''error.flag'' [])]"
    using infeasible_edge_side_is_error_flag
          [of "ex_at (ex_block 1 [ex_term (Br (ex_label 3))])" 0
              "ex_block 1 [ex_term (Br (ex_label 3))]" "ex_label 3" ex_dst _ _ ex_sem]
    by (auto simp: ex_at_def ex_block_def ex_term_def ex_dst_def ex_label_def mkContext_def
        ctx_read_def errorFlag_def ex_sem_def)
  from a b show ?thesis by simp
qed




text \<open>
  C10. An unconditional branch to exactly \<open>dst\<close> appends no side-condition: the
  side-condition list and the store are left as they were (the error flag is not
  recorded), and the context enters \<open>dst\<close>, at its first instruction, with the source
  block as previous block.
\<close>

theorem uncond_branch_to_dst_appends_nothing:
  assumes "m_bb (h c) = Some cur"
      and "m_inst (h c) < length (insts cur)"
      and "getOpcode (insts cur ! m_inst (h c)) = Br (bbValue dst)"
      and "m_func (h c) = None \<or> m_func (h c) = Some (getParent dst)"
  shows "\<exists>h'. intraBr S dst h c = Inr h' \<and> m_side (h' c) = m_side (h c)
           \<and> m_values (h' c) = m_values (h c)
           \<and> m_bb (h' c) = Some dst \<and> m_inst (h' c) = 0 \<and> m_prev (h' c) = Some cur"
  using assms
  by (auto simp: intraBr_def getCurrentInst_eq onBasicBlockEntry_def next_inst_apply Let_def)

theorem uncond_branch_to_dst_appends_nothing_witness:
  "\<exists>h'. intraBr ex_sem ex_dst (ex_at (ex_block 1 [ex_term (Br (ex_label 2))])) 0 = Inr h'
       \<and> m_side (h' 0) = [TRUE] \<and> m_bb (h' 0) = Some ex_dst"
  using uncond_branch_to_dst_appends_nothing
          [of "ex_at (ex_block 1 [ex_term (Br (ex_label 2))])" 0
              "ex_block 1 [ex_term (Br (ex_label 2))]" ex_dst ex_sem]
  by (auto simp: ex_at_def ex_block_def ex_term_def ex_dst_def ex_label_def mkContext_def)

text \<open>
  C4. A call to \<open>calloc\<close> executed with both memory meta-registers set (and returning
  normally) adds exactly one side-condition, a definition of the current value of the
  write register: with the option \<open>IgnoreCalloc2\<close> (treat calloc as malloc) it is equated
  with the current value of the read register and no zero-fill is added; without the
  option it is equated with the constant array that maps every pointer to zero.
\<close>

theorem calloc_zero_fill_toggle:
  assumes "getMemReadRegister h c = Some rr"
      and "getMemWriteRegister h c = Some wr"
      and "visitCallocCall S inst h c = Inr h'"
  shows "m_side (h' c) =
           m_side (h c) @ [EQ (ctx_read h c wr)
                              (if IgnoreCalloc2 S then ctx_read h c rr
                               else ConstArray (ptrSort S) (nullPtr S))]"
proof -
  define h1 where "h1 =
     (if IgnoreCalloc2 S then
        addDef (ctx_read h c wr) (ctx_read h c rr)
          (LOG S ''opsem'' ''treating calloc() as malloc()'' h c) c
      else
        addDef (ctx_read h c wr) (ConstArray (ptrSort S) (nullPtr S))
          (LOG S ''opsem''
             ''allowing calloc() to zero initialize ALL of its memory region'' h c) c)"
  have side1: "m_side (h1 c) =
           m_side (h c) @ [EQ (ctx_read h c wr)
                              (if IgnoreCalloc2 S then ctx_read h c rr
                               else ConstArray (ptrSort S) (nullPtr S))]"
    by (simp add: h1_def prim_defs)
  from assms obtain hv h2 where hv: "havoc S inst h1 c = Inr (hv, h2)"
    and sv: "setValue S inst hv h2 c = Inr h'"
    by (auto simp: visitCallocCall_def llvm_assert_def bind_res_eq_Inr Let_def h1_def
        split_def split: if_splits)
  from havoc_frame [OF hv, of c] setValue_side [OF sv, of c] side1
  show ?thesis by simp
qed

theorem calloc_zero_fill_toggle_witness:
  "(\<exists>h'. visitCallocCall ex_sem (ex_ptr 20) (ex_mem (Some ex_memIn) (Some ex_memOut) None) 0
            = Inr h'
        \<and> m_side (h' 0) = [EQ ex_memOut (ConstArray (BvSort 32) (BvNum 0 32))])
   \<and> (\<exists>h'. visitCallocCall (ex_sem\<lparr>IgnoreCalloc2 := True\<rparr>) (ex_ptr 20)
              (ex_mem (Some ex_memIn) (Some ex_memOut) None) 0 = Inr h'
        \<and> m_side (h' 0) = [EQ ex_memOut ex_memIn])"
proof -
  let ?H = "ex_mem (Some ex_memIn) (Some ex_memOut) None"
  have pre: "getMemReadRegister ?H 0 = Some ex_memIn"
    "getMemWriteRegister ?H 0 = Some ex_memOut"
    by (simp_all add: ex_defs meta_defs)
  have r1: "\<exists>h'. visitCallocCall ex_sem (ex_ptr 20) ?H 0 = Inr h'"
    by (simp add: visitCallocCall_def visitor_defs eval_defs ex_defs meta_defs prim_defs
          split_def Let_def)
  have r2: "\<exists>h'. visitCallocCall (ex_sem\<lparr>IgnoreCalloc2 := True\<rparr>) (ex_ptr 20) ?H 0 = Inr h'"
    by (simp add: visitCallocCall_def visitor_defs eval_defs ex_defs meta_defs prim_defs
          split_def Let_def)
  from r1 obtain h1 where h1: "visitCallocCall ex_sem (ex_ptr 20) ?H 0 = Inr h1" by blast
  from r2 obtain h2 where
    h2: "visitCallocCall (ex_sem\<lparr>IgnoreCalloc2 := True\<rparr>) (ex_ptr 20) ?H 0 = Inr h2" by blast
  from calloc_zero_fill_toggle [OF pre h1]
  have s1: "m_side (h1 0) = [EQ ex_memOut (ConstArray (BvSort 32) (BvNum 0 32))]"
    by (simp add: ex_defs ctx_read_def ptrSort_def nullPtr_def)
  from calloc_zero_fill_toggle [OF pre h2]
  have s2: "m_side (h2 0) = [EQ ex_memOut ex_memIn]"
    by (simp add: ex_defs ctx_read_def)
  from h1 h2 s1 s2 show ?thesis by simp
qed




text \<open>
  C6. A \<open>memset\<close> or \<open>memcpy\<close> whose length is not a constant integer, with the
  meta-registers set, tracked operands and available operand values, aborts with the
  message that a symbolic length is unsupported; and a result term is produced only for
  a constant length.
\<close>

theorem symbolic_length_is_unsupported:
  "(getMemReadRegister h c \<noteq> None \<and> getMemWriteRegister h c \<noteq> None
      \<and> isSkipped S dst = Inr False \<and> isSkipped S val = Inr False \<and> \<not> isMemScalar h c
      \<and> getType val = IntegerTy 8
      \<and> lookup S dst h c = Inr (Some a) \<and> lookup S val h c = Inr (Some v)
      \<and> lookup S len h c = Inr l \<and> \<not> isConstantInt len
    \<longrightarrow> executeMemSetInst S dst val len al h c
          = Inl (Unreachable ''Unsupported memset with symbolic length''))
   \<and> (getMemReadRegister h c \<noteq> None \<and> getMemWriteRegister h c \<noteq> None
      \<and> getMemTrsfrReadReg h c \<noteq> None
      \<and> isSkipped S dst = Inr False \<and> isSkipped S src = Inr False \<and> \<not> isMemScalar h c
      \<and> lookup S dst h c = Inr (Some a) \<and> lookup S src h c = Inr (Some b)
      \<and> lookup S len h c = Inr l \<and> \<not> isConstantInt len
    \<longrightarrow> executeMemCpyInst S dst src len al h c
          = Inl (Unreachable ''Unsupported memcpy with symbolic length''))
   \<and> (executeMemSetInst S dst val len al h c = Inr (Some t, h') \<longrightarrow> isConstantInt len)
   \<and> (executeMemCpyInst S dst src len al h c = Inr (Some t, h') \<longrightarrow> isConstantInt len)"
proof (intro conjI impI)
  assume "getMemReadRegister h c \<noteq> None \<and> getMemWriteRegister h c \<noteq> None
      \<and> isSkipped S dst = Inr False \<and> isSkipped S val = Inr False \<and> \<not> isMemScalar h c
      \<and> getType val = IntegerTy 8
      \<and> lookup S dst h c = Inr (Some a) \<and> lookup S val h c = Inr (Some v)
      \<and> lookup S len h c = Inr l \<and> \<not> isConstantInt len"
  then show "executeMemSetInst S dst val len al h c
          = Inl (Unreachable ''Unsupported memset with symbolic length'')"
    by (auto simp: executeMemSetInst_def isConstantInt_def split: valueKind.splits)
next
  assume "getMemReadRegister h c \<noteq> None \<and> getMemWriteRegister h c \<noteq> None
      \<and> getMemTrsfrReadReg h c \<noteq> None
      \<and> isSkipped S dst = Inr False \<and> isSkipped S src = Inr False \<and> \<not> isMemScalar h c
      \<and> lookup S dst h c = Inr (Some a) \<and> lookup S src h c = Inr (Some b)
      \<and> lookup S len h c = Inr l \<and> \<not> isConstantInt len"
  then show "executeMemCpyInst S dst src len al h c
          = Inl (Unreachable ''Unsupported memcpy with symbolic length'')"
    by (auto simp: executeMemCpyInst_def isConstantInt_def split: valueKind.splits)
next
  assume "executeMemSetInst S dst val len al h c = Inr (Some t, h')"
  then show "isConstantInt len" by (rule memset_result_needs_constant)
next
  assume "executeMemCpyInst S dst src len al h c = Inr (Some t, h')"
  then show "isConstantInt len" by (rule memcpy_result_needs_constant)
qed

theorem symbolic_length_is_unsupported_witness:
  "executeMemSetInst ex_sem (ex_ptr 11) (ex_i8 14) (ex_i32 15) 4
       (ex_mem (Some ex_memIn) (Some ex_memOut) (Some ex_memTr)) 0
     = Inl (Unreachable ''Unsupported memset with symbolic length'')
   \<and> executeMemCpyInst ex_sem (ex_ptr 11) (ex_ptr 13) (ex_i32 15) 4
       (ex_mem (Some ex_memIn) (Some ex_memOut) (Some ex_memTr)) 0
     = Inl (Unreachable ''Unsupported memcpy with symbolic length'')
   \<and> (\<exists>t h'. executeMemSetInst ex_sem (ex_ptr 11) (ex_i8 14) ex_len8 4
                 (ex_mem (Some ex_memIn) (Some ex_memOut) (Some ex_memTr)) 0 = Inr (Some t, h'))
   \<and> (\<exists>t h'. executeMemCpyInst ex_sem (ex_ptr 11) (ex_ptr 13) ex_len8 4
                 (ex_mem (Some ex_memIn) (Some ex_memOut) (Some ex_memTr)) 0 = Inr (Some t, h'))
   \<and> isConstantInt ex_len8"
proof -
  let ?H = "ex_mem (Some ex_memIn) (Some ex_memOut) (Some ex_memTr)"
  have pre: "getMemReadRegister ?H 0 \<noteq> None" "getMemWriteRegister ?H 0 \<noteq> None"
    "getMemTrsfrReadReg ?H 0 \<noteq> None" "\<not> isMemScalar ?H 0"
    "isSkipped ex_sem (ex_ptr 11) = Inr False" "isSkipped ex_sem (ex_i8 14) = Inr False"
    "isSkipped ex_sem (ex_ptr 13) = Inr False" "getType (ex_i8 14) = IntegerTy 8"
    "lookup ex_sem (ex_ptr 11) ?H 0 = Inr (Some (ex_reg (ex_ptr 11)))"
    "lookup ex_sem (ex_i8 14) ?H 0 = Inr (Some (ex_reg (ex_i8 14)))"
    "lookup ex_sem (ex_ptr 13) ?H 0 = Inr (Some (ex_reg (ex_ptr 13)))"
    "lookup ex_sem (ex_i32 15) ?H 0 = Inr (Some (ex_reg (ex_i32 15)))"
    "\<not> isConstantInt (ex_i32 15)"
    by (simp_all add: ex_defs meta_defs eval_defs isConstantInt_def)
  have c8: "lookup ex_sem ex_len8 ?H 0 = Inr (Some (BvNum 8 32))"
    by (simp add: ex_defs ex_len8_def eval_defs)
  have set8: "\<exists>t h'. executeMemSetInst ex_sem (ex_ptr 11) (ex_i8 14) ex_len8 4 ?H 0
                = Inr (Some t, h')"
    using pre c8
    by (simp add: executeMemSetInst_def)
       (simp add: ex_len8_def MemSet_def mm_MemSet_def mm_writeResult_def ex_defs meta_defs)
  have cpy8: "\<exists>t h'. executeMemCpyInst ex_sem (ex_ptr 11) (ex_ptr 13) ex_len8 4 ?H 0
                = Inr (Some t, h')"
    using pre c8
    by (simp add: executeMemCpyInst_def)
       (simp add: ex_len8_def MemCpy_def mm_MemCpy_def mm_writeResult_def ex_defs meta_defs)
  from set8 obtain t h' where
    t: "executeMemSetInst ex_sem (ex_ptr 11) (ex_i8 14) ex_len8 4 ?H 0 = Inr (Some t, h')"
    by blast
  from symbolic_length_is_unsupported
         [of ?H 0 ex_sem "ex_ptr 11" "ex_i8 14" "ex_reg (ex_ptr 11)" "ex_reg (ex_i8 14)"
             "ex_i32 15" "Some (ex_reg (ex_i32 15))" 4 "ex_ptr 13" "ex_reg (ex_ptr 13)"]
       pre
  have sym: "executeMemSetInst ex_sem (ex_ptr 11) (ex_i8 14) (ex_i32 15) 4 ?H 0
               = Inl (Unreachable ''Unsupported memset with symbolic length'')"
       "executeMemCpyInst ex_sem (ex_ptr 11) (ex_ptr 13) (ex_i32 15) 4 ?H 0
               = Inl (Unreachable ''Unsupported memcpy with symbolic length'')"
    by simp_all
  from symbolic_length_is_unsupported
         [of ?H 0 ex_sem "ex_ptr 11" "ex_i8 14" _ _ ex_len8 _ 4 _ _ t h'] t
  have "isConstantInt ex_len8" by blast
  with sym set8 cpy8 show ?thesis by simp
qed



text \<open>
  C1. PHI resolution is atomic. Let the store of contexts satisfy the register
  invariant and let the PHI visitor return on a block whose instructions are distinct
  values. Then every tracked PHI node among the leading PHI nodes of the block, whose
  incoming value for the previous block has a value \<open>e\<close> in the state before the visit,
  ends with \<open>e\<close> (as \<open>write\<close> stores it) in its register, wherever it stands among the
  PHI nodes and whatever the other PHI nodes assign. In particular two PHI nodes that
  name each other exchange their values, in either declaration order.
\<close>

theorem phi_nodes_read_before_written:
  assumes "wf_registers S h"
      and "OpSemPhiVisitor_visitBasicBlock S BB h c = Inr h'"
      and "distinct (map instValue (insts BB))"
      and "I \<in> set (takeWhile isPHINode (insts BB))"
      and "getOpcode I = PHI inc"
      and "isSkipped S (instValue I) = Inr False"
      and "getIncomingValueForBlock inc (m_prev (h c)) = Inr v"
      and "lookup S v h c = Inr (Some e)"
  shows "\<exists>reg. canonical S (instValue I) = Inr reg \<and> getRegister h' c (instValue I) = Some reg
           \<and> ctx_read h' c reg = wval S e"
proof -
  from assms(2) obtain ops where
    "phi_reads S (insts BB) h c = Inr ops" "phi_writes S (insts BB) ops h c = Inr h'"
    by (auto simp: OpSemPhiVisitor_visitBasicBlock_def bind_res_eq_Inr)
  from phi_target [OF assms(1) this assms(3-8)] show ?thesis
    by (auto simp: ctx_read_def)
qed

theorem phi_nodes_read_before_written_witness:
  "(\<exists>h'. OpSemPhiVisitor_visitBasicBlock ex_sem ex_swap ex_phis 0 = Inr h'
        \<and> ctx_read h' 0 (ex_reg (ex_i32 30)) = App ''B'' []
        \<and> ctx_read h' 0 (ex_reg (ex_i32 31)) = App ''A'' [])
   \<and> (\<exists>h'. OpSemPhiVisitor_visitBasicBlock ex_sem ex_swap_rev ex_phis 0 = Inr h'
        \<and> ctx_read h' 0 (ex_reg (ex_i32 30)) = App ''B'' []
        \<and> ctx_read h' 0 (ex_reg (ex_i32 31)) = App ''A'' [])"
proof -
  have can: "canonical ex_sem (ex_i32 30) = Inr (ex_reg (ex_i32 30))"
    "canonical ex_sem (ex_i32 31) = Inr (ex_reg (ex_i32 31))"
    using ex_canonical [of 30] ex_canonical [of 31] by simp_all
  have wf: "wf_registers ex_sem ex_phis"
    unfolding wf_registers_def
  proof (intro allI impI)
    fix c v r
    assume "m_valueToRegister (ex_phis c) v = Some r"
    then have "v = ex_i32 30 \<and> r = ex_reg (ex_i32 30) \<or> v = ex_i32 31 \<and> r = ex_reg (ex_i32 31)"
      by (simp add: ex_phis_def mkContext_def split: if_splits)
    with can show "canonical ex_sem v = Inr r" by auto
  qed
  have sk: "isSkipped ex_sem (ex_i32 30) = Inr False" "isSkipped ex_sem (ex_i32 31) = Inr False"
    by (simp_all add: isSkipped_def isShadowMem_def ex_defs)
  have lk: "lookup ex_sem (ex_i32 30) ex_phis 0 = Inr (Some (App ''A'' []))"
    "lookup ex_sem (ex_i32 31) ex_phis 0 = Inr (Some (App ''B'' []))"
    by (simp_all add: lookup_def getOperandValue_def getRegister.simps ctx_read_def ex_phis_def
          mkContext_def ex_i32_def ex_reg_def)
  have inc: "getIncomingValueForBlock [(ex_label 4, ex_i32 31)] (m_prev (ex_phis 0))
               = Inr (ex_i32 31)"
    "getIncomingValueForBlock [(ex_label 4, ex_i32 30)] (m_prev (ex_phis 0)) = Inr (ex_i32 30)"
    by (simp_all add: getIncomingValueForBlock_def ex_phis_def ex_block_def mkContext_def)
  have ns: "\<not> SimplifyOnWrite ex_sem" by (simp add: ex_sem_def)
  have "\<exists>h'. OpSemPhiVisitor_visitBasicBlock ex_sem ex_swap ex_phis 0 = Inr h'"
    by (simp add: OpSemPhiVisitor_visitBasicBlock_def ex_swap_def ex_block_def ex_phi_def
          setValue_def OpSemVisitorBase_write_def ex_term_def sk lk inc)
       (simp add: getRegister.simps write_apply ex_phis_def mkContext_def ex_i32_def)
  then obtain h1 where
    h1: "OpSemPhiVisitor_visitBasicBlock ex_sem ex_swap ex_phis 0 = Inr h1" by blast
  have "\<exists>h'. OpSemPhiVisitor_visitBasicBlock ex_sem ex_swap_rev ex_phis 0 = Inr h'"
    by (simp add: OpSemPhiVisitor_visitBasicBlock_def ex_swap_rev_def ex_block_def ex_phi_def
          setValue_def OpSemVisitorBase_write_def ex_term_def sk lk inc)
       (simp add: getRegister.simps write_apply ex_phis_def mkContext_def ex_i32_def)
  then obtain h2 where
    h2: "OpSemPhiVisitor_visitBasicBlock ex_sem ex_swap_rev ex_phis 0 = Inr h2" by blast
  have d1: "distinct (map instValue (insts ex_swap))"
    "distinct (map instValue (insts ex_swap_rev))"
    by (simp_all add: ex_swap_def ex_swap_rev_def ex_block_def ex_phi_def ex_term_def ex_i32_def)
  have m1: "ex_phi 30 31 \<in> set (takeWhile isPHINode (insts ex_swap))"
    "ex_phi 31 30 \<in> set (takeWhile isPHINode (insts ex_swap))"
    "ex_phi 30 31 \<in> set (takeWhile isPHINode (insts ex_swap_rev))"
    "ex_phi 31 30 \<in> set (takeWhile isPHINode (insts ex_swap_rev))"
    by (simp_all add: ex_swap_def ex_swap_rev_def ex_block_def ex_phi_def isPHINode_def)
  have op: "getOpcode (ex_phi 30 31) = PHI [(ex_label 4, ex_i32 31)]"
    "getOpcode (ex_phi 31 30) = PHI [(ex_label 4, ex_i32 30)]"
    "instValue (ex_phi 30 31) = ex_i32 30" "instValue (ex_phi 31 30) = ex_i32 31"
    by (simp_all add: ex_phi_def)
  from phi_nodes_read_before_written
         [OF wf h1 d1(1) m1(1) op(1) sk(1) [folded op(3)] inc(1) lk(2)]
       phi_nodes_read_before_written
         [OF wf h1 d1(1) m1(2) op(2) sk(2) [folded op(4)] inc(2) lk(1)]
       phi_nodes_read_before_written
         [OF wf h2 d1(2) m1(3) op(1) sk(1) [folded op(3)] inc(1) lk(2)]
       phi_nodes_read_before_written
         [OF wf h2 d1(2) m1(4) op(2) sk(2) [folded op(4)] inc(2) lk(1)]
       can ns h1 h2
  show ?thesis by (auto simp: op wval_def)
qed

text \<open>
  C7. In a store of contexts that satisfies the register invariant: \<open>mkRegister\<close>
  returns the register that \<open>getRegister\<close> finds, in the context itself or up the parent
  chain, and changes nothing; otherwise it makes the canonical register of the value
  and enters it in the map of the context it was called on; it keeps the invariant and
  leaves every other context, so also the parent, as it was; any two registers found
  for one value anywhere are the same; forking keeps the invariant and leaves the
  parent as it was; and freshly constructed root contexts satisfy the invariant.
\<close>

theorem one_register_per_value:
  assumes "wf_registers S h"
  shows "(getRegister h c v = Some r \<longrightarrow> mkRegister S v h c = Inr (r, h))
       \<and> (getRegister h c v = None \<and> mkRegister S v h c = Inr (r, h') \<longrightarrow>
            h' = registered v r h c \<and> getRegister h' c v = Some r)
       \<and> (mkRegister S v h c = Inr (r, h') \<longrightarrow>
            wf_registers S h' \<and> canonical S v = Inr r \<and> (\<forall>a. a \<noteq> c \<longrightarrow> h' a = h a))
       \<and> (getRegister h a v = Some r1 \<and> getRegister h b v = Some r2 \<longrightarrow> r1 = r2)
       \<and> wf_registers S (fork p n values side h)
       \<and> (n \<noteq> p \<longrightarrow> fork p n values side h p = h p)
       \<and> wf_registers S (\<lambda>a. mkContext values side)"
proof (intro conjI impI)
  assume "getRegister h c v = Some r"
  with assms show "mkRegister S v h c = Inr (r, h)"
    by (simp add: mkRegister_found getRegister_canonical)
next
  assume a: "getRegister h c v = None \<and> mkRegister S v h c = Inr (r, h')"
  with mkRegister_cases [of S v h c r h']
  show "h' = registered v r h c" by simp
  then show "getRegister h' c v = Some r" by (simp add: getRegister_registered)
next
  assume a: "mkRegister S v h c = Inr (r, h')"
  from mkRegister_wf [OF assms a]
  show "wf_registers S h'" and "canonical S v = Inr r" by simp_all
  from mkRegister_cases [OF a]
  show "\<forall>a. a \<noteq> c \<longrightarrow> h' a = h a" by (auto simp: registered_apply)
next
  assume "getRegister h a v = Some r1 \<and> getRegister h b v = Some r2"
  with getRegister_canonical [OF assms, of a v r1] getRegister_canonical [OF assms, of b v r2]
  show "r1 = r2" by simp
next
  from assms show "wf_registers S (fork p n values side h)" by (rule wf_fork)
next
  assume "n \<noteq> p"
  then show "fork p n values side h p = h p" by (simp add: fork_def)
next
  show "wf_registers S (\<lambda>a. mkContext values side)"
    by (simp add: wf_registers_def mkContext_def)
qed

theorem one_register_per_value_witness:
  "wf_registers ex_sem ex_lineage
   \<and> mkRegister ex_sem (ex_i32 12) ex_lineage 1 = Inr (ex_reg (ex_i32 12), ex_lineage)
   \<and> mkRegister ex_sem (ex_i32 15) ex_lineage 1
       = Inr (ex_reg (ex_i32 15), registered (ex_i32 15) (ex_reg (ex_i32 15)) ex_lineage 1)
   \<and> getRegister (registered (ex_i32 15) (ex_reg (ex_i32 15)) ex_lineage 1) 1 (ex_i32 15)
       = Some (ex_reg (ex_i32 15))
   \<and> registered (ex_i32 15) (ex_reg (ex_i32 15)) ex_lineage 1 0 = ex_lineage 0
   \<and> wf_registers ex_sem (registered (ex_i32 15) (ex_reg (ex_i32 15)) ex_lineage 1)"
proof -
  have can: "canonical ex_sem (ex_i32 12) = Inr (ex_reg (ex_i32 12))"
    by (simp add: canonical_def mkInstructionRegister_def isShadowMem_def ex_defs)
  have wf: "wf_registers ex_sem ex_lineage"
    unfolding wf_registers_def
  proof (intro allI impI)
    fix c v r
    assume m: "m_valueToRegister (ex_lineage c) v = Some r"
    then have "c \<noteq> 1" by (auto simp: ex_lineage_def fork_def)
    with m have "v = ex_i32 12 \<and> r = ex_reg (ex_i32 12)"
      by (simp add: ex_lineage_def fork_def mkContext_def split: if_splits)
    with can show "canonical ex_sem v = Inr r" by simp
  qed
  have found: "getRegister ex_lineage 1 (ex_i32 12) = Some (ex_reg (ex_i32 12))"
    by (simp add: getRegister.simps ex_lineage_def fork_def mkContext_def)
  have fresh: "getRegister ex_lineage 1 (ex_i32 15) = None"
    by (simp add: getRegister.simps ex_lineage_def fork_def mkContext_def ex_i32_def)
  have "\<exists>h'. mkRegister ex_sem (ex_i32 15) ex_lineage 1 = Inr (ex_reg (ex_i32 15), h')"
    using fresh
    by (simp add: mkRegister_def mkRegister_Instruction_def mkInstructionRegister_def
          isShadowMem_def ex_defs)
  then obtain h' where
    mk: "mkRegister ex_sem (ex_i32 15) ex_lineage 1 = Inr (ex_reg (ex_i32 15), h')" by blast
  note main = one_register_per_value [OF wf]
  from main [of 1 "ex_i32 12" "ex_reg (ex_i32 12)", THEN conjunct1] found
  have a: "mkRegister ex_sem (ex_i32 12) ex_lineage 1 = Inr (ex_reg (ex_i32 12), ex_lineage)"
    by simp
  from main [of 1 "ex_i32 15" "ex_reg (ex_i32 15)" h', THEN conjunct2, THEN conjunct1]
       fresh mk
  have b: "h' = registered (ex_i32 15) (ex_reg (ex_i32 15)) ex_lineage 1"
    "getRegister h' 1 (ex_i32 15) = Some (ex_reg (ex_i32 15))"
    by blast+
  from main [of 1 "ex_i32 15" "ex_reg (ex_i32 15)" h',
             THEN conjunct2, THEN conjunct2, THEN conjunct1] mk
  have c: "wf_registers ex_sem h'" "h' 0 = ex_lineage 0"
    by auto
  from wf a b c mk show ?thesis by auto
qed

end
